theory Spec2Isabelle
  imports Complex_Main
begin

section \<open>Python values used by \<open>app.py\<close>\<close>

text \<open>
  The exceptions that the modelled code can raise. \<open>ServiceError\<close> stands for any
  exception thrown by an external collaborator (PDF reader, embedding service, text
  splitter, vector index, answer generator); \<open>OSError\<close> for a failed file operation.
\<close>

datatype py_error = KeyError | ValueError | IndexError | ZeroDivisionError
  | OSError | ServiceError

text \<open>
  Python floats are idealised as real numbers: every arithmetic expression of the source
  is kept with the same operations in the same order, but rounding, infinities and NaN
  are not represented. Division is the one float operation of the source that can raise.
\<close>

definition py_div :: "real \<Rightarrow> real \<Rightarrow> py_error + real" where
  "py_div a b = (if b = 0 then Inl ZeroDivisionError else Inr (a / b))"

subsection \<open>Strings\<close>

text \<open>
  Text is a list of characters; the model covers ASCII text, for which \<open>str.lower\<close> maps
  \<open>A..Z\<close> to \<open>a..z\<close> and leaves every other character alone, and for which the
  whitespace of \<open>str.split()\<close> is the ten characters below.
\<close>

definition is_space :: "char \<Rightarrow> bool" where
  "is_space c = (c \<in> set [CHR 0x09, CHR 0x0A, CHR 0x0B, CHR 0x0C, CHR 0x0D,
                            CHR 0x1C, CHR 0x1D, CHR 0x1E, CHR 0x1F, CHR 0x20])"

definition lower_char :: "char \<Rightarrow> char" where
  "lower_char c =
     (case map_of (zip ''ABCDEFGHIJKLMNOPQRSTUVWXYZ'' ''abcdefghijklmnopqrstuvwxyz'') c of
        Some l \<Rightarrow> l | None \<Rightarrow> c)"

definition py_lower :: "string \<Rightarrow> string" where
  "py_lower s = map lower_char s"

text \<open>
  \<open>s.split()\<close>: the maximal runs of non-whitespace characters, in order. \<open>cur\<close> is the
  word being read.
\<close>

fun split_from :: "string \<Rightarrow> string \<Rightarrow> string list" where
  "split_from cur [] = (if cur = [] then [] else [cur])"
| "split_from cur (c # cs) =
     (if is_space c then (if cur = [] then split_from [] cs else cur # split_from [] cs)
      else split_from (cur @ [c]) cs)"

definition py_split :: "string \<Rightarrow> string list" where
  "py_split s = split_from [] s"

text \<open>\<open>needle in hay\<close> on strings: \<open>needle\<close> occurs as a contiguous piece of \<open>hay\<close>.\<close>

fun str_contains :: "string \<Rightarrow> string \<Rightarrow> bool" where
  "str_contains [] needle = (needle = [])"
| "str_contains (c # cs) needle =
     (take (length needle) (c # cs) = needle \<or> str_contains cs needle)"

text \<open>
  \<open>s.replace(old, new)\<close> for a non-empty \<open>old\<close> (the source only replaces \<open>'.pdf'\<close>):
  every occurrence, found left to right without overlap, is replaced.
\<close>

fun py_replace :: "string \<Rightarrow> string \<Rightarrow> string \<Rightarrow> string" where
  "py_replace old new [] = []"
| "py_replace old new (c # cs) =
     (if old \<noteq> [] \<and> take (length old) (c # cs) = old
      then new @ py_replace old new (drop (length old - 1) cs)
      else c # py_replace old new cs)"

text \<open>\<open>sep.join(xs)\<close>.\<close>

fun py_join :: "string \<Rightarrow> string list \<Rightarrow> string" where
  "py_join sep [] = []"
| "py_join sep [x] = x"
| "py_join sep (x # y # ys) = x @ sep @ py_join sep (y # ys)"

text \<open>
  The format specification \<open>.2f\<close>: the number correctly rounded to two decimals (a tie
  goes to the even neighbour), printed with a sign only when negative, at least one digit
  before the point and exactly two after it.
\<close>

fun decimal :: "nat \<Rightarrow> string" where
  "decimal n =
     (if n < 10 then [''0123456789'' ! n]
      else decimal (n div 10) @ [''0123456789'' ! (n mod 10)])"

declare decimal.simps [simp del]

definition round_half_even :: "real \<Rightarrow> int" where
  "round_half_even x =
     (let f = \<lfloor>x\<rfloor>; d = x - of_int f
      in if d < 1 / 2 then f else if 1 / 2 < d then f + 1 else if even f then f else f + 1)"

definition format_2f :: "real \<Rightarrow> string" where
  "format_2f e =
     (let n = nat (round_half_even (\<bar>e\<bar> * 100))
      in (if e < 0 then ''-'' else '''') @ decimal (n div 100) @ ''.''
         @ [''0123456789'' ! (n mod 100 div 10), ''0123456789'' ! (n mod 10)])"

subsection \<open>Dictionaries\<close>

text \<open>
  A Python \<open>dict\<close> enumerates its keys in insertion order, and \<open>max\<close> over its items
  breaks ties by that order, so a dictionary is an association list: a key appears once,
  at the position of its first insertion. \<open>dict_get\<close> is \<open>d[k]\<close>, \<open>dict_set\<close> is
  \<open>d[k] = v\<close> and \<open>dict_has\<close> is \<open>k in d\<close>.
\<close>

type_synonym ('k, 'v) dict = "('k \<times> 'v) list"

definition dict_has :: "('k, 'v) dict \<Rightarrow> 'k \<Rightarrow> bool" where
  "dict_has d k = (map_of d k \<noteq> None)"

definition dict_get :: "('k, 'v) dict \<Rightarrow> 'k \<Rightarrow> py_error + 'v" where
  "dict_get d k = (case map_of d k of None \<Rightarrow> Inl KeyError | Some v \<Rightarrow> Inr v)"

fun dict_set :: "'k \<Rightarrow> 'v \<Rightarrow> ('k, 'v) dict \<Rightarrow> ('k, 'v) dict" where
  "dict_set k v [] = [(k, v)]"
| "dict_set k v (p # ps) = (if fst p = k then (k, v) # ps else p # dict_set k v ps)"

text \<open>
  \<open>max(xs, key=f)\<close> keeps the element seen so far unless a later one has a strictly
  larger key, and raises \<open>ValueError\<close> on an empty sequence.
\<close>

fun max_from :: "('a \<Rightarrow> real) \<Rightarrow> 'a \<Rightarrow> 'a list \<Rightarrow> 'a" where
  "max_from key best [] = best"
| "max_from key best (x # xs) =
     (if key best < key x then max_from key x xs else max_from key best xs)"

definition py_max :: "('a \<Rightarrow> real) \<Rightarrow> 'a list \<Rightarrow> py_error + 'a" where
  "py_max key xs = (case xs of [] \<Rightarrow> Inl ValueError | x # rest \<Rightarrow> Inr (max_from key x rest))"

text \<open>
  \<open>random.choice(xs)\<close>, with the index it draws given by \<open>pick\<close>; \<open>IndexError\<close> on an
  empty sequence.
\<close>

definition random_choice :: "nat \<Rightarrow> 'a list \<Rightarrow> py_error + 'a" where
  "random_choice pick xs = (if xs = [] then Inl IndexError else Inr (xs ! (pick mod length xs)))"

section \<open>The policy controller: class \<open>RLAgent\<close> (lines 25-78)\<close>

type_synonym q_row = "(string, real) dict"
type_synonym q_table_t = "(string, q_row) dict"

record rl_agent =
  learning_rate :: real
  discount_factor :: real
  exploration_rate :: real
  q_table :: q_table_t
  state_history :: "string list"

definition RLAgent :: "real \<Rightarrow> real \<Rightarrow> real \<Rightarrow> rl_agent" where
  "RLAgent lr df er =
     \<lparr>learning_rate = lr, discount_factor = df, exploration_rate = er, q_table = [],
      state_history = []\<rparr>"

definition get_state_key :: "real list \<Rightarrow> string list \<Rightarrow> string" where
  "get_state_key question_embedding document_ids =
     py_join ''-'' (map format_2f (take 5 question_embedding)) @ ''-''
       @ py_join ''-'' (take 3 document_ids)"

text \<open>The dict comprehension \<open>{a: 0.0 for a in actions}\<close>.\<close>

definition zero_row :: "string list \<Rightarrow> q_row" where
  "zero_row actions = fold (\<lambda>a d. dict_set a 0 d) actions []"

text \<open>The action list written out in \<open>update_q_value\<close> (lines 55-56).\<close>

definition canonical_actions :: "string list" where
  "canonical_actions =
     [''chunk_small'', ''chunk_medium'', ''chunk_large'', ''similarity_standard'',
      ''similarity_mmr'']"

text \<open>
  \<open>choose_action\<close> (lines 40-50). \<open>draw\<close> is the value of \<open>random.random()\<close>, a number
  in \<open>[0, 1)\<close>, and \<open>pick\<close> the index drawn by \<open>random.choice\<close>. The agent is returned
  with the result because the lazily added row stays in the table also when \<open>max\<close>
  raises.
\<close>

definition choose_action ::
  "real \<Rightarrow> nat \<Rightarrow> rl_agent \<Rightarrow> string \<Rightarrow> string list \<Rightarrow> (py_error + string) \<times> rl_agent" where
  "choose_action draw pick self state_key available_actions =
     (if draw < exploration_rate self then (random_choice pick available_actions, self)
      else
        let self1 = (if \<not> dict_has (q_table self) state_key
                     then self\<lparr>q_table :=
                            dict_set state_key (zero_row available_actions) (q_table self)\<rparr>
                     else self)
        in case dict_get (q_table self1) state_key of
             Inl e \<Rightarrow> (Inl e, self1)
           | Inr row \<Rightarrow>
               (case py_max snd row of
                  Inl e \<Rightarrow> (Inl e, self1)
                | Inr item \<Rightarrow> (Inr (fst item), self1)))"

text \<open>
  \<open>update_q_value\<close> (lines 52-67). \<open>next_state\<close> is \<open>None\<close> or a string, and the test
  \<open>if next_state and next_state in self.q_table\<close> is false for \<open>None\<close> and for the
  empty string. The right-hand side of the assignment reads \<open>self.q_table[state][action]\<close>
  and raises \<open>KeyError\<close> when the row has no such action.
\<close>

definition update_q_value ::
  "rl_agent \<Rightarrow> string \<Rightarrow> string \<Rightarrow> real \<Rightarrow> string option \<Rightarrow> (py_error + unit) \<times> rl_agent" where
  "update_q_value self state action reward next_state =
     (let self1 = (if \<not> dict_has (q_table self) state
                   then self\<lparr>q_table :=
                          dict_set state (zero_row canonical_actions) (q_table self)\<rparr>
                   else self);
          max_next_q =
            (case next_state of
               None \<Rightarrow> Inr 0
             | Some ns \<Rightarrow>
                 if ns \<noteq> [] \<and> dict_has (q_table self1) ns
                 then (case dict_get (q_table self1) ns of
                         Inl e \<Rightarrow> Inl e
                       | Inr row \<Rightarrow> py_max id (map snd row))
                 else Inr 0)
      in case max_next_q of
           Inl e \<Rightarrow> (Inl e, self1)
         | Inr m \<Rightarrow>
             (case dict_get (q_table self1) state of
                Inl e \<Rightarrow> (Inl e, self1)
              | Inr row \<Rightarrow>
                  (case dict_get row action of
                     Inl e \<Rightarrow> (Inl e, self1)
                   | Inr q \<Rightarrow>
                       (Inr (),
                        self1\<lparr>q_table :=
                          dict_set state
                            (dict_set action
                               (q + learning_rate self *
                                  (reward + discount_factor self * m - q)) row)
                            (q_table self1)\<rparr>))))"

subsection \<open>Persistence\<close>

text \<open>
  The file system is a dictionary from paths to file contents. \<open>json.dump\<close> and
  \<open>json.load\<close> belong to the Python library, not to the repository: they are parameters
  of the model (\<open>json_dump\<close>, \<open>json_load\<close>), as is whether a path can be written.
  \<open>save_model\<close> is lines 69-72 and \<open>load_model\<close> lines 74-78.
\<close>

type_synonym file_system = "(string, string) dict"

definition save_model ::
  "(q_table_t \<Rightarrow> string) \<Rightarrow> (string \<Rightarrow> bool) \<Rightarrow> rl_agent \<Rightarrow> string \<Rightarrow> file_system
     \<Rightarrow> py_error + file_system" where
  "save_model json_dump writable self filepath fs =
     (if writable filepath then Inr (dict_set filepath (json_dump (q_table self)) fs)
      else Inl OSError)"

definition load_model ::
  "(string \<Rightarrow> py_error + q_table_t) \<Rightarrow> rl_agent \<Rightarrow> string \<Rightarrow> file_system
     \<Rightarrow> py_error + rl_agent" where
  "load_model json_load self filepath fs =
     (if dict_has fs filepath
      then (case dict_get fs filepath of
              Inl e \<Rightarrow> Inl e
            | Inr text \<Rightarrow>
                (case json_load text of
                   Inl e \<Rightarrow> Inl e
                 | Inr table \<Rightarrow> Inr (self\<lparr>q_table := table\<rparr>)))
      else Inr self)"

subsection \<open>The serialised table\<close>

text \<open>
  Modelled from the spec: the serialised form of the value table, a mapping from state
  key to a mapping from action to a number. The code writes it with \<open>json.dump\<close> and
  reads it with \<open>json.load\<close>; both belong to the Python library and are not in the
  repository, so the definitions of this subsection follow the library's documentation
  of the format, for the values a table holds: objects, strings as keys, and numbers.
  The text of a number is the library's too (\<open>float.__repr__\<close> when writing, \<open>int\<close> or
  \<open>float\<close> when reading): \<open>float_repr\<close> and \<open>number\<close> are parameters of the codec.
\<close>

text \<open>Modelled from the spec: a lowercase hexadecimal digit, as the escapes are written.\<close>

definition hex_digit :: "nat \<Rightarrow> char" where
  "hex_digit n = ''0123456789abcdef'' ! n"

text \<open>
  Modelled from the spec: a character inside a string, as \<open>json.dump\<close> writes it with its
  default \<open>ensure_ascii\<close>: the quote and the backslash behind a backslash, newline,
  carriage return, tab, backspace and form feed by their letter, every other character
  outside the printable ASCII range as \<open>u00\<close> and its two hexadecimal digits behind
  a backslash, and the printable ones as they are.
\<close>

definition escape_char :: "char \<Rightarrow> string" where
  "escape_char c =
     (if c = CHR 0x22 then [CHR 0x5C, CHR 0x22]
      else if c = CHR 0x5C then [CHR 0x5C, CHR 0x5C]
      else if c = CHR 0x0A then [CHR 0x5C, CHR ''n'']
      else if c = CHR 0x0D then [CHR 0x5C, CHR ''r'']
      else if c = CHR 0x09 then [CHR 0x5C, CHR ''t'']
      else if c = CHR 0x08 then [CHR 0x5C, CHR ''b'']
      else if c = CHR 0x0C then [CHR 0x5C, CHR ''f'']
      else if 32 \<le> (of_char c :: nat) \<and> (of_char c :: nat) \<le> 126 then [c]
      else [CHR 0x5C, CHR ''u'', CHR ''0'', CHR ''0'',
            hex_digit (of_char c div 16), hex_digit (of_char c mod 16)])"

text \<open>Modelled from the spec: a string, between double quotes.\<close>

definition encode_string :: "string \<Rightarrow> string" where
  "encode_string s = CHR 0x22 # concat (map escape_char s) @ [CHR 0x22]"

text \<open>
  Modelled from the spec: an object, with the default separators of \<open>json.dump\<close>: the
  members in the order of the dictionary, \<open>key: value\<close>, joined by a comma and a space,
  between braces.
\<close>

definition encode_object :: "('v \<Rightarrow> string) \<Rightarrow> (string, 'v) dict \<Rightarrow> string" where
  "encode_object enc d =
     ''{'' @ py_join '', '' (map (\<lambda>(k, v). encode_string k @ '': '' @ enc v) d) @ ''}''"

text \<open>Modelled from the spec: the text \<open>json.dump\<close> writes for a value table.\<close>

definition json_dumps :: "(real \<Rightarrow> string) \<Rightarrow> q_table_t \<Rightarrow> string" where
  "json_dumps float_repr table = encode_object (encode_object float_repr) table"

text \<open>
  Modelled from the spec: the whitespace that may stand between the tokens of a JSON
  text (space, tab, line feed, carriage return), and skipping it.
\<close>

definition is_json_ws :: "char \<Rightarrow> bool" where
  "is_json_ws c = (c \<in> set [CHR 0x20, CHR 0x09, CHR 0x0A, CHR 0x0D])"

definition skip_ws :: "string \<Rightarrow> string" where
  "skip_ws s = dropWhile is_json_ws s"

text \<open>
  Modelled from the spec: the value of a hexadecimal digit of either case, and the
  character of an escape of four such digits. A character is eight bits wide here, so
  an escape above \<open>00ff\<close> has no character and is rejected.
\<close>

definition hex_value :: "char \<Rightarrow> nat option" where
  "hex_value c =
     map_of (zip ''0123456789abcdef'' [0 ..< 16] @ zip ''ABCDEF'' [10 ..< 16]) c"

definition unicode_escape :: "char \<Rightarrow> char \<Rightarrow> char \<Rightarrow> char \<Rightarrow> char option" where
  "unicode_escape h1 h2 h3 h4 =
     (case (hex_value h1, hex_value h2, hex_value h3, hex_value h4) of
        (Some a, Some b, Some c, Some d) \<Rightarrow>
          (if ((a * 16 + b) * 16 + c) * 16 + d < 256
           then Some (char_of (((a * 16 + b) * 16 + c) * 16 + d))
           else None)
      | _ \<Rightarrow> None)"

text \<open>Modelled from the spec: the character of a one-letter escape.\<close>

definition unescape :: "char \<Rightarrow> char option" where
  "unescape e =
     map_of [(CHR 0x22, CHR 0x22), (CHR 0x5C, CHR 0x5C), (CHR ''/'', CHR ''/''),
             (CHR ''b'', CHR 0x08), (CHR ''f'', CHR 0x0C), (CHR ''n'', CHR 0x0A),
             (CHR ''r'', CHR 0x0D), (CHR ''t'', CHR 0x09)] e"

text \<open>
  Modelled from the spec: reading a string after its opening quote, up to the closing
  one; the result is the string and the text that follows it. An unknown escape, a
  control character (which the default strict mode refuses) and a missing closing quote
  give \<open>None\<close>.
\<close>

fun parse_chars :: "string \<Rightarrow> (string \<times> string) option" where
  "parse_chars [] = None"
| "parse_chars (c # s) =
     (if c = CHR 0x22 then Some ([], s)
      else if c = CHR 0x5C
      then (case s of
              [] \<Rightarrow> None
            | e # s1 \<Rightarrow>
                if e = CHR ''u''
                then (case s1 of
                        h1 # h2 # h3 # h4 # s2 \<Rightarrow>
                          (case unicode_escape h1 h2 h3 h4 of
                             None \<Rightarrow> None
                           | Some ch \<Rightarrow>
                               (case parse_chars s2 of
                                  None \<Rightarrow> None
                                | Some (r, rest) \<Rightarrow> Some (ch # r, rest)))
                      | _ \<Rightarrow> None)
                else (case unescape e of
                        None \<Rightarrow> None
                      | Some ch \<Rightarrow>
                          (case parse_chars s1 of
                             None \<Rightarrow> None
                           | Some (r, rest) \<Rightarrow> Some (ch # r, rest))))
      else if (of_char c :: nat) < 32 then None
      else (case parse_chars s of
              None \<Rightarrow> None
            | Some (r, rest) \<Rightarrow> Some (c # r, rest)))"

text \<open>
  Modelled from the spec: reading a number. The token is the longest run of the
  characters a JSON number is written with; \<open>number\<close> gives its value, or \<open>None\<close> when
  the token is not a number. \<open>NaN\<close> and \<open>Infinity\<close>, which the library writes for the
  floats that are no real numbers, are not read.
\<close>

definition num_char :: "char \<Rightarrow> bool" where
  "num_char c = (c \<in> set ''0123456789+-.eE'')"

definition parse_number :: "(string \<Rightarrow> real option) \<Rightarrow> string \<Rightarrow> (real \<times> string) option" where
  "parse_number number s =
     (let token = takeWhile num_char s
      in if token = [] then None
         else (case number token of
                 None \<Rightarrow> None
               | Some v \<Rightarrow> Some (v, dropWhile num_char s)))"

text \<open>
  Modelled from the spec: reading the members of an object, from the opening quote of a
  key: the key, a colon, the value (read by \<open>pv\<close>), then a closing brace or a comma and
  the next member, with whitespace allowed around each token. A repeated key keeps its
  first place and takes the last value, as building a dictionary from the pairs does.
  The first argument after \<open>pv\<close> bounds the number of members read; \<open>parse_object\<close>
  passes the length of the text, which no text has members enough to exhaust.
\<close>

fun parse_members ::
  "(string \<Rightarrow> ('v \<times> string) option) \<Rightarrow> nat \<Rightarrow> string \<Rightarrow> (string, 'v) dict
     \<Rightarrow> ((string, 'v) dict \<times> string) option" where
  "parse_members pv 0 s pairs = None"
| "parse_members pv (Suc n) s pairs =
     (case s of
        [] \<Rightarrow> None
      | c # s0 \<Rightarrow>
          if c \<noteq> CHR 0x22 then None
          else (case parse_chars s0 of
                  None \<Rightarrow> None
                | Some (key, s1) \<Rightarrow>
                    (case skip_ws s1 of
                       [] \<Rightarrow> None
                     | d # s2 \<Rightarrow>
                         if d \<noteq> CHR '':'' then None
                         else (case pv (skip_ws s2) of
                                 None \<Rightarrow> None
                               | Some (v, s3) \<Rightarrow>
                                   (case skip_ws s3 of
                                      [] \<Rightarrow> None
                                    | x # s4 \<Rightarrow>
                                        if x = CHR ''}''
                                        then Some (dict_set key v pairs, s4)
                                        else if x = CHR '',''
                                        then parse_members pv n (skip_ws s4)
                                               (dict_set key v pairs)
                                        else None)))))"

text \<open>Modelled from the spec: reading an object, from its opening brace.\<close>

definition parse_object ::
  "(string \<Rightarrow> ('v \<times> string) option) \<Rightarrow> string \<Rightarrow> ((string, 'v) dict \<times> string) option" where
  "parse_object pv s =
     (case s of
        [] \<Rightarrow> None
      | c # s0 \<Rightarrow>
          if c \<noteq> CHR ''{'' then None
          else (case skip_ws s0 of
                  [] \<Rightarrow> None
                | d # s1 \<Rightarrow>
                    if d = CHR ''}'' then Some ([], s1)
                    else parse_members pv (length s) (skip_ws s0) []))"

text \<open>
  Modelled from the spec: what \<open>json.load\<close> reads from the text of a value table: an
  object of objects of numbers, with nothing but whitespace around it. Malformed text
  raises \<open>ValueError\<close>. A value table is the only shape of this model: a well-formed
  text of another shape, which the library would read into a value that is no table,
  is reported as \<open>ValueError\<close> as well.
\<close>

definition json_loads :: "(string \<Rightarrow> real option) \<Rightarrow> string \<Rightarrow> py_error + q_table_t" where
  "json_loads number text =
     (case parse_object (parse_object (parse_number number)) (skip_ws text) of
        None \<Rightarrow> Inl ValueError
      | Some (table, rest) \<Rightarrow> if skip_ws rest = [] then Inr table else Inl ValueError)"

section \<open>Reward scoring\<close>

text \<open>
  \<open>get_document_similarity\<close> (lines 129-140). A retrieved passage is represented by its
  \<open>page_content\<close>. The loop carries \<open>total_score\<close>; both divisions are guarded by the
  source's conditional expressions, and the model keeps the guard and the raising
  division apart so that the guard is what rules the exception out.
\<close>

fun similarity_loop :: "string \<Rightarrow> string list \<Rightarrow> real \<Rightarrow> py_error + real" where
  "similarity_loop question [] total_score = Inr total_score"
| "similarity_loop question (doc # docs) total_score =
     (let keywords = py_split (py_lower question);
          matches = length (filter (\<lambda>keyword. str_contains (py_lower doc) keyword) keywords)
      in case (if keywords \<noteq> [] then py_div (real matches) (real (length keywords))
               else Inr 0) of
           Inl e \<Rightarrow> Inl e
         | Inr score \<Rightarrow> similarity_loop question docs (total_score + score))"

definition get_document_similarity :: "string \<Rightarrow> string list \<Rightarrow> py_error + real" where
  "get_document_similarity question docs =
     (case similarity_loop question docs 0 of
        Inl e \<Rightarrow> Inl e
      | Inr total_score \<Rightarrow>
          (if docs \<noteq> [] then py_div total_score (real (length docs)) else Inr 0))"

text \<open>
  The reward of a document-path pass (lines 1045-1049 of \<open>user_input\<close>), from the
  question, the retrieved passages and the generated answer.
\<close>

definition compute_reward :: "string \<Rightarrow> string list \<Rightarrow> string \<Rightarrow> py_error + real" where
  "compute_reward user_question docs response_output =
     (case get_document_similarity user_question docs of
        Inl e \<Rightarrow> Inl e
      | Inr doc_similarity_score \<Rightarrow>
          (let response_length_score = min (real (length response_output) / 1000) 1.0
           in Inr ((doc_similarity_score * 0.7) + (response_length_score * 0.3))))"

section \<open>Question classification: \<open>is_pdf_related_question\<close> (lines 157-191)\<close>

text \<open>
  An uploaded document has a name and its bytes. \<open>pdf_docs\<close> is \<open>None\<close> or a list, and
  \<open>not pdf_docs\<close> holds for \<open>None\<close> and for the empty list.
\<close>

record uploaded_pdf =
  name :: string
  data :: string

definition truthy :: "'a list option \<Rightarrow> bool" where
  "truthy xs = (case xs of None \<Rightarrow> False | Some l \<Rightarrow> l \<noteq> [])"

definition pdf_indicators :: "string list" where
  "pdf_indicators =
     [''pdf'', ''document'', ''file'', ''text'', ''content'', ''read'', ''extract'',
      ''from the document'', ''in the pdf'', ''mentioned in'']"

definition conversational_starters :: "string list" where
  "conversational_starters =
     [''how are you'', ''what is your name'', ''tell me about yourself'',
      ''who are you'', ''what can you do'', ''hello'', ''hi '', ''hey'', ''thanks'',
      ''thank you'', ''help me'', ''can you help'', ''I need help'',
      ''what'' @ [CHR 0x27] @ ''s the weather'', ''who made you'', ''how do you work'']"

text \<open>Each \<open>for\<close> loop of the source returns at its first hit: it is a \<open>list_ex\<close>.\<close>

definition is_pdf_related_question :: "string \<Rightarrow> uploaded_pdf list option \<Rightarrow> bool" where
  "is_pdf_related_question question pdf_docs =
     (if \<not> truthy pdf_docs then False
      else
        let pdf_names = map name (the pdf_docs)
        in if list_ex (\<lambda>n. str_contains (py_lower question)
                              (py_replace ''.pdf'' '''' (py_lower n))) pdf_names
           then True
           else if list_ex (\<lambda>indicator. str_contains (py_lower question) (py_lower indicator))
                     pdf_indicators
           then True
           else if list_ex (\<lambda>starter. str_contains (py_lower question) (py_lower starter))
                     conversational_starters
           then False
           else (if truthy pdf_docs then True else False))"

section \<open>The retrieval orchestrator: \<open>user_input\<close> (lines 862-1136)\<close>

subsection \<open>The external collaborators\<close>

definition chunking_actions :: "string list" where
  "chunking_actions = [''chunk_small'', ''chunk_medium'', ''chunk_large'']"

definition retrieval_actions :: "string list" where
  "retrieval_actions = [''similarity_standard'', ''similarity_mmr'']"

text \<open>
  The search run on the index: \<open>similarity_search(q)\<close> or
  \<open>max_marginal_relevance_search(q, k=4, fetch_k=10)\<close>.
\<close>

datatype search_call = SimilaritySearch | MaxMarginalRelevanceSearch nat nat

text \<open>An image extracted from a document, as \<open>extract_text_and_images\<close> stores it.\<close>

record pdf_image =
  image :: string
  page :: nat
  filename :: string

text \<open>
  The Streamlit calls of \<open>user_input\<close>: \<open>st.warning\<close>, \<open>st.sidebar.success\<close>,
  \<open>st.sidebar.info\<close>, \<open>st.error\<close> (with the exception it reports), \<open>st.markdown\<close>
  (with the question, the answer and the information line of the chat bubbles),
  \<open>st.write\<close>, \<open>st.columns\<close> and \<open>st.image\<close>.
\<close>

datatype st_call =
    Warning string
  | SidebarSuccess string
  | SidebarInfo string
  | ErrorMessage py_error
  | Markdown string string string
  | Write string
  | Columns nat
  | ShowImage pdf_image

text \<open>
  What one pass obtains from outside the program: the calls into the PDF reader, the
  embedding service, the text splitter, the vector index, the answer generator and the
  page, each of which returns a value or raises; the two random draws of
  \<open>choose_action\<close>; the clock; and the library's JSON codec and the file system's
  permissions. \<open>get_vector_store\<close> (lines 123-127) builds the index and returns what it
  saves under \<open>faiss_index\<close>, and nothing is saved when it raises; an index is
  represented by the chunks it was built from, and \<open>run_search\<close> stands for loading the
  saved index and searching it.
\<close>

record services =
  get_pdf_text :: "uploaded_pdf list \<Rightarrow> py_error + string"
  embed_query :: "string \<Rightarrow> py_error + real list"
  get_text_chunks :: "string \<Rightarrow> nat \<Rightarrow> nat \<Rightarrow> py_error + string list"
  get_vector_store :: "string list \<Rightarrow> py_error + string"
  run_search :: "string list \<Rightarrow> search_call \<Rightarrow> string \<Rightarrow> py_error + string list"
  qa_chain :: "string list \<Rightarrow> string \<Rightarrow> py_error + string"
  enhanced_direct_gemini_response :: "string \<Rightarrow> py_error + string"
  st :: "st_call \<Rightarrow> py_error + unit"
  random_draw :: real
  random_pick :: nat
  now :: string
  json_dump :: "q_table_t \<Rightarrow> string"
  json_load :: "string \<Rightarrow> py_error + q_table_t"
  writable :: "string \<Rightarrow> bool"

subsection \<open>From the chosen action to chunking and search\<close>

text \<open>A collaborator call followed by a sidebar message, as the branches below have it.\<close>

definition then_info :: "services \<Rightarrow> string \<Rightarrow> py_error + 'a \<Rightarrow> py_error + 'a" where
  "then_info sv message result =
     (case result of
        Inl e \<Rightarrow> Inl e
      | Inr x \<Rightarrow> (case st sv (SidebarInfo message) of Inl e \<Rightarrow> Inl e | Inr _ \<Rightarrow> Inr x))"

text \<open>
  Lines 1000-1009. The last branch is a plain \<open>else\<close>, taken by every action that is
  neither \<open>chunk_small\<close> nor \<open>chunk_medium\<close>.
\<close>

definition text_chunks_for :: "services \<Rightarrow> string \<Rightarrow> string \<Rightarrow> py_error + string list" where
  "text_chunks_for sv raw_text chosen_action =
     (if chosen_action = ''chunk_small''
      then then_info sv ''RL Agent chose: Small chunks (5000 chars)''
             (get_text_chunks sv raw_text 5000 500)
      else if chosen_action = ''chunk_medium''
      then then_info sv ''RL Agent chose: Medium chunks (10000 chars)''
             (get_text_chunks sv raw_text 10000 1000)
      else then_info sv ''RL Agent chose: Large chunks (15000 chars)''
             (get_text_chunks sv raw_text 15000 1500))"

text \<open>Lines 1017-1027.\<close>

definition docs_for ::
  "services \<Rightarrow> string list \<Rightarrow> string \<Rightarrow> string \<Rightarrow> py_error + string list" where
  "docs_for sv text_chunks chosen_action user_question =
     (if chosen_action \<in> set retrieval_actions
      then (if chosen_action = ''similarity_standard''
            then then_info sv ''RL Agent chose: Standard similarity search''
                   (run_search sv text_chunks SimilaritySearch user_question)
            else then_info sv ''RL Agent chose: MMR similarity search (diversity-focused)''
                   (run_search sv text_chunks (MaxMarginalRelevanceSearch 4 10) user_question))
      else run_search sv text_chunks SimilaritySearch user_question)"

text \<open>
  Lines 1000-1033: chunk, index, search and answer, for the chosen action. The files are
  returned with the result: the index is saved before the search and the answer, and
  stays saved when they raise.
\<close>

definition retrieve_and_answer ::
  "services \<Rightarrow> string \<Rightarrow> string \<Rightarrow> string \<Rightarrow> file_system
     \<Rightarrow> (py_error + (string list \<times> string)) \<times> file_system" where
  "retrieve_and_answer sv raw_text chosen_action user_question fs =
     (case text_chunks_for sv raw_text chosen_action of
        Inl e \<Rightarrow> (Inl e, fs)
      | Inr text_chunks \<Rightarrow>
          (case get_vector_store sv text_chunks of
             Inl e \<Rightarrow> (Inl e, fs)
           | Inr saved_index \<Rightarrow>
               (let fs1 = dict_set ''faiss_index'' saved_index fs
                in case docs_for sv text_chunks chosen_action user_question of
                     Inl e \<Rightarrow> (Inl e, fs1)
                   | Inr docs \<Rightarrow>
                       (case qa_chain sv docs user_question of
                          Inl e \<Rightarrow> (Inl e, fs1)
                        | Inr response_output \<Rightarrow> (Inr (docs, response_output), fs1)))))"

subsection \<open>One pass\<close>

text \<open>
  A record of the conversation log: question, answer, model label, timestamp, document
  names, action (or \<open>direct_query\<close>), reward (or \<open>N/A\<close>).
\<close>

type_synonym conversation_record =
  "string \<times> string \<times> string \<times> string \<times> string \<times> string \<times> string"

text \<open>
  The objects a pass can mutate: the agent object the caller passed (\<open>None\<close> when it
  passed none), the conversation log and the files. They are returned with the outcome
  also when the pass raises, because a Python exception does not undo a mutation.
\<close>

record pass_state =
  agent :: "rl_agent option"
  history :: "conversation_record list"
  files :: file_system

type_synonym pass_result = "(py_error + rl_agent option) \<times> pass_state"

definition finish ::
  "rl_agent option \<Rightarrow> py_error + rl_agent option \<Rightarrow> rl_agent \<Rightarrow> conversation_record list
     \<Rightarrow> file_system \<Rightarrow> pass_result" where
  "finish passed outcome current conversation_history fs =
     (outcome,
      \<lparr>agent = (case passed of None \<Rightarrow> None | Some _ \<Rightarrow> Some current),
       history = conversation_history, files = fs\<rparr>)"

text \<open>Lines 1035-1041 and 1064-1134: the chat bubbles, then up to six images.\<close>

definition image_related_terms :: "string list" where
  "image_related_terms =
     [''image'', ''picture'', ''photo'', ''figure'', ''diagram'', ''illustration'', ''visual'']"

fun show_all :: "services \<Rightarrow> pdf_image list \<Rightarrow> py_error + unit" where
  "show_all sv [] = Inr ()"
| "show_all sv (img_data # rest) =
     (case st sv (ShowImage img_data) of Inl e \<Rightarrow> Inl e | Inr _ \<Rightarrow> show_all sv rest)"

definition display_answer ::
  "services \<Rightarrow> string \<Rightarrow> string \<Rightarrow> string \<Rightarrow> real \<Rightarrow> pdf_image list \<Rightarrow> py_error + unit" where
  "display_answer sv user_question response_output chosen_action reward pdf_images =
     (let show_images =
            list_ex (\<lambda>term. str_contains (py_lower user_question) term) image_related_terms
      in case st sv (Markdown user_question response_output
                       (''RL Agent: Strategy = '' @ chosen_action @ '', Reward = ''
                          @ format_2f reward)) of
           Inl e \<Rightarrow> Inl e
         | Inr _ \<Rightarrow>
             (if show_images \<and> pdf_images \<noteq> []
              then (case st sv (Write ''### Related Images from Documents:'') of
                      Inl e \<Rightarrow> Inl e
                    | Inr _ \<Rightarrow>
                        (case st sv (Columns 3) of
                           Inl e \<Rightarrow> Inl e
                         | Inr _ \<Rightarrow> show_all sv (take 6 pdf_images)))
              else Inr ()))"

text \<open>
  Lines 1045-1136: score, update, persist, log and display, once the answer is there.
  The display comes last and is not guarded: when it raises, the update, the saved
  model and the new record stay.
\<close>

definition learn_and_log ::
  "services \<Rightarrow> string \<Rightarrow> string \<Rightarrow> uploaded_pdf list \<Rightarrow> conversation_record list
     \<Rightarrow> rl_agent option \<Rightarrow> rl_agent \<Rightarrow> file_system \<Rightarrow> pdf_image list \<Rightarrow> string \<Rightarrow> string
     \<Rightarrow> string list \<Rightarrow> string \<Rightarrow> pass_result" where
  "learn_and_log sv user_question model_name pdf_docs conversation_history passed current fs
       pdf_images state_key chosen_action docs response_output =
     (case compute_reward user_question docs response_output of
        Inl e \<Rightarrow> finish passed (Inl e) current conversation_history fs
      | Inr reward \<Rightarrow>
          (case update_q_value current state_key chosen_action reward None of
             (Inl e, updated) \<Rightarrow> finish passed (Inl e) updated conversation_history fs
           | (Inr _, updated) \<Rightarrow>
               (case save_model (json_dump sv) (writable sv) updated ''rl_model.json'' fs of
                  Inl e \<Rightarrow> finish passed (Inl e) updated conversation_history fs
                | Inr fs' \<Rightarrow>
                    (let logged =
                           conversation_history @
                             [(user_question, response_output, model_name, now sv,
                               py_join '', '' (map name pdf_docs), chosen_action,
                               format_2f reward)]
                     in case display_answer sv user_question response_output chosen_action
                               reward pdf_images of
                          Inl e \<Rightarrow> finish passed (Inl e) updated logged fs'
                        | Inr _ \<Rightarrow> finish passed (Inr (Some updated)) updated logged fs'))))"

text \<open>Lines 976-1136: the document path.\<close>

definition document_path ::
  "services \<Rightarrow> string \<Rightarrow> string \<Rightarrow> uploaded_pdf list \<Rightarrow> conversation_record list
     \<Rightarrow> rl_agent option \<Rightarrow> rl_agent \<Rightarrow> file_system \<Rightarrow> pdf_image list \<Rightarrow> pass_result" where
  "document_path sv user_question model_name pdf_docs conversation_history passed current fs
       pdf_images =
     (case get_pdf_text sv pdf_docs of
        Inl e \<Rightarrow> finish passed (Inl e) current conversation_history fs
      | Inr raw_text \<Rightarrow>
          (case embed_query sv user_question of
             Inl e \<Rightarrow> finish passed (Inl e) current conversation_history fs
           | Inr question_embedding \<Rightarrow>
               (let doc_ids = map (\<lambda>pdf. take 5 (name pdf)) pdf_docs;
                    state_key = get_state_key question_embedding doc_ids;
                    available_actions = chunking_actions @ retrieval_actions
                in case choose_action (random_draw sv) (random_pick sv) current state_key
                          available_actions of
                     (Inl e, chosen) \<Rightarrow> finish passed (Inl e) chosen conversation_history fs
                   | (Inr chosen_action, chosen) \<Rightarrow>
                       (case retrieve_and_answer sv raw_text chosen_action user_question fs of
                          (Inl e, fs1) \<Rightarrow> finish passed (Inl e) chosen conversation_history fs1
                        | (Inr (docs, response_output), fs1) \<Rightarrow>
                            learn_and_log sv user_question model_name pdf_docs
                              conversation_history passed chosen fs1 pdf_images state_key
                              chosen_action docs response_output))))"

text \<open>
  Lines 870-877: with no agent passed, one is constructed and loaded. The load and the
  success message are inside \<open>try\<close>; the bare \<open>except\<close> swallows what they raise and
  shows a message of its own, which is not guarded.
\<close>

definition initial_agent :: "services \<Rightarrow> rl_agent option \<Rightarrow> file_system \<Rightarrow> py_error + rl_agent" where
  "initial_agent sv rl_agent fs =
     (case rl_agent of
        Some a \<Rightarrow> Inr a
      | None \<Rightarrow>
          (case load_model (json_load sv) (RLAgent 0.1 0.9 0.2) ''rl_model.json'' fs of
             Inl e \<Rightarrow>
               (case st sv (SidebarInfo ''Initialized new RL model'') of
                  Inl e' \<Rightarrow> Inl e'
                | Inr _ \<Rightarrow> Inr (RLAgent 0.1 0.9 0.2))
           | Inr loaded \<Rightarrow>
               (case st sv (SidebarSuccess ''Loaded existing RL model'') of
                  Inr _ \<Rightarrow> Inr loaded
                | Inl e \<Rightarrow>
                    (case st sv (SidebarInfo ''Initialized new RL model'') of
                       Inl e' \<Rightarrow> Inl e'
                     | Inr _ \<Rightarrow> Inr loaded))))"

text \<open>
  Lines 880-974: the general path. Everything from the call of the answer generator to
  the chat bubbles is inside \<open>try\<close>; what it raises is reported with \<open>st.error\<close> and the
  agent returned. The record is appended before the chat bubbles are drawn.
\<close>

definition general_path ::
  "services \<Rightarrow> string \<Rightarrow> string \<Rightarrow> uploaded_pdf list option \<Rightarrow> conversation_record list
     \<Rightarrow> rl_agent option \<Rightarrow> rl_agent \<Rightarrow> file_system \<Rightarrow> pass_result" where
  "general_path sv user_question model_name pdf_docs conversation_history passed current fs =
     (case st sv (SidebarInfo
                    ''Processing as a general question using direct Gemini response'') of
        Inl e \<Rightarrow> finish passed (Inl e) current conversation_history fs
      | Inr _ \<Rightarrow>
          (case enhanced_direct_gemini_response sv user_question of
             Inl e \<Rightarrow>
               (case st sv (ErrorMessage e) of
                  Inl e' \<Rightarrow> finish passed (Inl e') current conversation_history fs
                | Inr _ \<Rightarrow> finish passed (Inr (Some current)) current conversation_history fs)
           | Inr response_output \<Rightarrow>
               (let logged =
                      conversation_history @
                        [(user_question, response_output, ''Direct '' @ model_name, now sv,
                          py_join '', ''
                            (case pdf_docs of None \<Rightarrow> [] | Some ds \<Rightarrow> map name ds),
                          ''direct_query'', ''N/A'')]
                in case st sv (Markdown user_question response_output
                                 ''Mode: Direct Gemini Query (Enhanced)'') of
                     Inr _ \<Rightarrow> finish passed (Inr (Some current)) current logged fs
                   | Inl e \<Rightarrow>
                       (case st sv (ErrorMessage e) of
                          Inl e' \<Rightarrow> finish passed (Inl e') current logged fs
                        | Inr _ \<Rightarrow> finish passed (Inr (Some current)) current logged fs))))"

text \<open>
  \<open>user_input\<close>. The key is \<open>None\<close> or a string, and only \<open>None\<close> is tested for
  (line 863); the collaborators are called with whatever string is passed.
\<close>

definition user_input ::
  "services \<Rightarrow> string \<Rightarrow> string \<Rightarrow> string option \<Rightarrow> uploaded_pdf list option
     \<Rightarrow> conversation_record list \<Rightarrow> rl_agent option \<Rightarrow> pdf_image list \<Rightarrow> file_system
     \<Rightarrow> pass_result" where
  "user_input sv user_question model_name api_key pdf_docs conversation_history rl_agent
       pdf_images fs =
     (if api_key = None
      then (case st sv (Warning ''Please provide API key before processing.'') of
              Inl e \<Rightarrow>
                (Inl e, \<lparr>agent = rl_agent, history = conversation_history, files = fs\<rparr>)
            | Inr _ \<Rightarrow>
                (Inr None, \<lparr>agent = rl_agent, history = conversation_history, files = fs\<rparr>))
      else
        let is_pdf_question = is_pdf_related_question user_question pdf_docs
        in case initial_agent sv rl_agent fs of
             Inl e \<Rightarrow>
               (Inl e, \<lparr>agent = rl_agent, history = conversation_history, files = fs\<rparr>)
           | Inr current \<Rightarrow>
               (if \<not> is_pdf_question \<or> \<not> truthy pdf_docs
                then general_path sv user_question model_name pdf_docs conversation_history
                       rl_agent current fs
                else document_path sv user_question model_name (the pdf_docs)
                       conversation_history rl_agent current fs pdf_images))"

section \<open>The specification's words\<close>

subsection \<open>The reward\<close>

text \<open>
  The fraction of the question's lowercase whitespace-tokenised words that literally
  appear in the passage's lowercase text; a question without words has fraction 0.
\<close>

definition word_fraction :: "string \<Rightarrow> string \<Rightarrow> real" where
  "word_fraction question passage =
     (let ws = py_split (py_lower question)
      in if ws = [] then 0
         else real (length (filter (str_contains (py_lower passage)) ws)) / real (length ws))"

definition similarity_spec :: "string \<Rightarrow> string list \<Rightarrow> real" where
  "similarity_spec question passages =
     (if passages = [] then 0
      else sum_list (map (word_fraction question) passages) / real (length passages))"

definition reward_spec :: "string \<Rightarrow> string list \<Rightarrow> string \<Rightarrow> real" where
  "reward_spec question passages answer =
     0.7 * similarity_spec question passages + 0.3 * min (real (length answer) / 1000) 1"

subsection \<open>The value table\<close>

text \<open>\<open>Q[s][a]\<close>, when the table has it.\<close>

definition q_lookup :: "q_table_t \<Rightarrow> string \<Rightarrow> string \<Rightarrow> real option" where
  "q_lookup tbl s a = (case map_of tbl s of None \<Rightarrow> None | Some row \<Rightarrow> map_of row a)"

text \<open>
  \<open>maxNextQ\<close>: the maximum over the row of the next state if there is a next state and
  the table has it, and 0 otherwise.
\<close>

definition max_next_q_spec :: "q_table_t \<Rightarrow> string option \<Rightarrow> real" where
  "max_next_q_spec tbl next_state =
     (case next_state of
        None \<Rightarrow> 0
      | Some ns \<Rightarrow> (case map_of tbl ns of None \<Rightarrow> 0 | Some row \<Rightarrow> Max (snd ` set row)))"

text \<open>
  The next states for which the update rule is stated: none, or a non-empty key whose
  row, if the table has one, is not empty.
\<close>

definition next_state_ok :: "q_table_t \<Rightarrow> string option \<Rightarrow> bool" where
  "next_state_ok tbl next_state =
     (case next_state of
        None \<Rightarrow> True
      | Some ns \<Rightarrow> ns \<noteq> [] \<and> (case map_of tbl ns of None \<Rightarrow> True | Some row \<Rightarrow> row \<noteq> []))"

subsection \<open>Classification\<close>

text \<open>
  The three tests of the rule table: the question mentions the name of a loaded document
  (lowercase, every \<open>.pdf\<close> removed), it contains a document-indicating keyword, it
  contains a conversational opener.
\<close>

definition mentions_document :: "string \<Rightarrow> uploaded_pdf list \<Rightarrow> bool" where
  "mentions_document question docs =
     (\<exists>d\<in>set docs. str_contains (py_lower question)
                       (py_replace ''.pdf'' '''' (py_lower (name d))))"

definition mentions_indicator :: "string \<Rightarrow> bool" where
  "mentions_indicator question =
     list_ex (\<lambda>k. str_contains (py_lower question) (py_lower k)) pdf_indicators"

definition conversational_opener :: "string \<Rightarrow> bool" where
  "conversational_opener question =
     list_ex (\<lambda>k. str_contains (py_lower question) (py_lower k)) conversational_starters"

text \<open>
  The precedence as the specification words it: no documents, then the openers, then the document
  names and keywords, then the default.
\<close>

definition classify_spec :: "string \<Rightarrow> uploaded_pdf list option \<Rightarrow> bool" where
  "classify_spec question pdf_docs =
     (if \<not> truthy pdf_docs then False
      else if conversational_opener question then False
      else if mentions_document question (the pdf_docs) \<or> mentions_indicator question then True
      else True)"

subsection \<open>Chunking and search per action\<close>

text \<open>
  The chunk size, the overlap and the search of each action, as a table: the three
  chunking tiers with the exact nearest-neighbour search, and the two retrieval
  strategies with the third tier.
\<close>

definition action_knobs :: "string \<Rightarrow> nat \<times> nat \<times> search_call" where
  "action_knobs a =
     (if a = ''chunk_small'' then (5000, 500, SimilaritySearch)
      else if a = ''chunk_medium'' then (10000, 1000, SimilaritySearch)
      else if a = ''similarity_mmr'' then (15000, 1500, MaxMarginalRelevanceSearch 4 10)
      else (15000, 1500, SimilaritySearch))"

text \<open>
  Retrieval and answer with given knobs, on a page that shows every message: split at
  the size and overlap, build and save the index, run the search, generate the answer.
\<close>

definition retrieve_with ::
  "services \<Rightarrow> string \<Rightarrow> nat \<Rightarrow> nat \<Rightarrow> search_call \<Rightarrow> string \<Rightarrow> file_system
     \<Rightarrow> (py_error + (string list \<times> string)) \<times> file_system" where
  "retrieve_with sv raw_text chunk_size chunk_overlap search user_question fs =
     (case get_text_chunks sv raw_text chunk_size chunk_overlap of
        Inl e \<Rightarrow> (Inl e, fs)
      | Inr text_chunks \<Rightarrow>
          (case get_vector_store sv text_chunks of
             Inl e \<Rightarrow> (Inl e, fs)
           | Inr saved_index \<Rightarrow>
               (case run_search sv text_chunks search user_question of
                  Inl e \<Rightarrow> (Inl e, dict_set ''faiss_index'' saved_index fs)
                | Inr docs \<Rightarrow>
                    (case qa_chain sv docs user_question of
                       Inl e \<Rightarrow> (Inl e, dict_set ''faiss_index'' saved_index fs)
                     | Inr response_output \<Rightarrow>
                         (Inr (docs, response_output),
                          dict_set ''faiss_index'' saved_index fs)))))"

subsection \<open>What a failed pass may leave in the table\<close>



subsection \<open>Concrete collaborators\<close>

text \<open>
  The number text of the concrete passes and tables below: the text Python writes for
  the four numbers that occur in them, and the numbers it reads from those texts.
\<close>

definition demo_repr :: "real \<Rightarrow> string" where
  "demo_repr v =
     (if v = 0 then ''0.0'' else if v = 1 / 4 then ''0.25''
      else if v = 3 / 12500 then ''0.00024'' else if v = 3 / 10000 then ''0.0003''
      else ''NaN'')"

definition demo_number :: "string \<Rightarrow> real option" where
  "demo_number t =
     map_of [(''0.0'', 0), (''0.25'', 1 / 4), (''0.00024'', 3 / 12500), (''0.0003'', 3 / 10000)] t"

text \<open>
  Collaborators for the concrete passes below. The text splitter returns one chunk that
  spells the chunk size and overlap it was called with, the search returns the chunks
  and the answer joins them, so that the answer shows the chunking used. The parameters
  are the two random draws, whether the answer generator succeeds, whether the model
  file can be written, and whether the chat bubbles can be drawn.
\<close>

definition demo_services :: "real \<Rightarrow> nat \<Rightarrow> bool \<Rightarrow> bool \<Rightarrow> bool \<Rightarrow> services" where
  "demo_services draw pick answer_ok can_write can_draw =
     \<lparr>get_pdf_text = (\<lambda>docs. Inr ''Quarterly revenue increased by 10%''),
      embed_query = (\<lambda>q. Inr [1 / 2, 1 / 4, 0, - 1, 2, 7]),
      get_text_chunks = (\<lambda>t size overlap. Inr [decimal size @ ''/'' @ decimal overlap]),
      get_vector_store = (\<lambda>chunks. Inr ''index''),
      run_search = (\<lambda>chunks call q. Inr chunks),
      qa_chain = (\<lambda>docs q. if answer_ok then Inr (py_join '' '' docs) else Inl ServiceError),
      enhanced_direct_gemini_response = (\<lambda>q. Inr ''Hi''),
      st = (\<lambda>call. case call of
                      Markdown q a i \<Rightarrow> if can_draw then Inr () else Inl ServiceError
                    | _ \<Rightarrow> Inr ()),
      random_draw = draw,
      random_pick = pick,
      now = ''2025-01-01 00:00:00'',
      json_dump = json_dumps demo_repr,
      json_load = json_loads demo_number,
      writable = (\<lambda>p. can_write)\<rparr>"

definition demo_docs :: "uploaded_pdf list" where
  "demo_docs = [\<lparr>name = ''report.pdf'', data = ''''\<rparr>]"

text \<open>An agent that has learned one value, for a question on another document.\<close>

definition demo_agent :: rl_agent where
  "demo_agent =
     RLAgent 0.1 0.9 0.2
       \<lparr>q_table := [(''0.50-0.25-0.00--1.00-2.00-notes'',
                     [(''chunk_small'', 1 / 4), (''chunk_medium'', 0), (''chunk_large'', 0),
                      (''similarity_standard'', 0), (''similarity_mmr'', 0)])]\<rparr>"

section \<open>Properties of the reward\<close>

lemma similarity_loop_sum:
  "similarity_loop q ds t = Inr (t + sum_list (map (word_fraction q) ds))"
proof (induction ds arbitrary: t)
  case Nil
  show ?case by simp
next
  case (Cons d ds)
  show ?case
    by (simp add: Cons.IH Let_def py_div_def word_fraction_def add.assoc)
qed

lemma get_document_similarity_spec:
  "get_document_similarity q ds = Inr (similarity_spec q ds)"
  by (simp add: get_document_similarity_def similarity_loop_sum similarity_spec_def py_div_def)

lemma word_fraction_range: "0 \<le> word_fraction q d \<and> word_fraction q d \<le> 1"
proof -
  have "length (filter (str_contains (py_lower d)) (py_split (py_lower q)))
          \<le> length (py_split (py_lower q))"
    by (rule length_filter_le)
  then show ?thesis
    by (simp add: word_fraction_def Let_def divide_le_eq_1)
qed

lemma sum_fraction_range:
  "0 \<le> sum_list (map (word_fraction q) ds)
     \<and> sum_list (map (word_fraction q) ds) \<le> real (length ds)"
proof (induction ds)
  case Nil
  show ?case by simp
next
  case (Cons d ds)
  with word_fraction_range [of q d] show ?case by simp
qed

lemma similarity_spec_range: "0 \<le> similarity_spec q ds \<and> similarity_spec q ds \<le> 1"
  using sum_fraction_range [of q ds]
  by (simp add: similarity_spec_def divide_le_eq_1)

lemma reward_spec_range: "0 \<le> reward_spec q ds a \<and> reward_spec q ds a \<le> 1"
proof -
  let ?l = "min (real (length a) / 1000) 1"
  have l: "0 \<le> ?l \<and> ?l \<le> 1" by simp
  from similarity_spec_range [of q ds] l show ?thesis
    unfolding reward_spec_def by linarith
qed

text \<open>A question has no words exactly when it is empty or all whitespace.\<close>

lemma split_from_empty: "split_from cur s = [] \<longleftrightarrow> cur = [] \<and> (\<forall>c\<in>set s. is_space c)"
  by (induction s arbitrary: cur) auto

lemma lower_letter_no_space: "l \<in> set ''abcdefghijklmnopqrstuvwxyz'' \<Longrightarrow> \<not> is_space l"
  unfolding is_space_def by (simp, elim disjE) simp_all

lemma space_lower_fixed: "is_space c \<Longrightarrow> lower_char c = c"
  unfolding is_space_def by (simp, elim disjE) (simp_all add: lower_char_def)

lemma lower_char_cases:
  "lower_char c = c \<or> lower_char c \<in> set ''abcdefghijklmnopqrstuvwxyz''"
proof (cases "map_of (zip ''ABCDEFGHIJKLMNOPQRSTUVWXYZ'' ''abcdefghijklmnopqrstuvwxyz'') c")
  case None
  then have "lower_char c = c" unfolding lower_char_def by (simp only: option.case)
  then show ?thesis ..
next
  case (Some l)
  then have "(c, l) \<in> set (zip ''ABCDEFGHIJKLMNOPQRSTUVWXYZ'' ''abcdefghijklmnopqrstuvwxyz'')"
    by (rule map_of_SomeD)
  then have "l \<in> set ''abcdefghijklmnopqrstuvwxyz''" by (rule set_zip_rightD)
  moreover from Some have "lower_char c = l" unfolding lower_char_def by (simp only: option.case)
  ultimately show ?thesis by (simp only: simp_thms)
qed

lemma is_space_lower: "is_space (lower_char c) = is_space c"
proof (cases "is_space c")
  case True
  then show ?thesis by (simp only: space_lower_fixed)
next
  case False
  from lower_char_cases [of c] have "\<not> is_space (lower_char c)"
  proof
    assume "lower_char c = c"
    with False show ?thesis by simp
  next
    assume "lower_char c \<in> set ''abcdefghijklmnopqrstuvwxyz''"
    then show ?thesis by (rule lower_letter_no_space)
  qed
  with False show ?thesis by (simp only: simp_thms)
qed

lemma no_words_iff: "py_split (py_lower q) = [] \<longleftrightarrow> (\<forall>c\<in>set q. is_space c)"
  by (simp add: py_split_def py_lower_def split_from_empty is_space_lower)

text \<open>
  C10. The similarity score is total and never divides by zero: it always returns a
  number; for a question whose lowercase whitespace tokenisation is empty, that is for
  an empty or whitespace-only question, it returns 0 whatever the passages are, and for
  an empty passage list it returns 0 whatever the question is.
\<close>

theorem similarity_total_no_zero_division:
  "(\<exists>v. get_document_similarity question docs = Inr v)
   \<and> (py_split (py_lower question) = [] \<longrightarrow> get_document_similarity question docs = Inr 0)
   \<and> (list_all is_space question \<longrightarrow> get_document_similarity question docs = Inr 0)
   \<and> get_document_similarity question [] = Inr 0"
proof -
  have zero: "sum_list (map (word_fraction question) ds) = 0"
    if "py_split (py_lower question) = []" for ds
    using that by (induction ds) (simp_all add: word_fraction_def)
  have none: "get_document_similarity question docs = Inr 0"
    if "py_split (py_lower question) = []"
    using that by (simp add: get_document_similarity_spec similarity_spec_def zero)
  have blank: "py_split (py_lower question) = []" if "list_all is_space question"
    using that by (simp add: no_words_iff list_all_iff)
  have empty: "get_document_similarity question [] = Inr 0"
    by (simp add: get_document_similarity_spec similarity_spec_def)
  from none blank empty get_document_similarity_spec [of question docs]
  show ?thesis by blast
qed

text \<open>A question of two spaces, with two passages.\<close>

theorem similarity_total_no_zero_division_witness:
  "py_split (py_lower ''  '') = []
   \<and> list_all is_space ''  ''
   \<and> get_document_similarity ''  '' [''Quarterly revenue'', ''''] = Inr 0"
proof -
  have h: "py_split (py_lower ''  '') = []"
    by (simp add: py_split_def py_lower_def lower_char_def is_space_def)
  have b: "list_all is_space ''  ''"
    by (simp add: is_space_def)
  from similarity_total_no_zero_division [of "''  ''" "[''Quarterly revenue'', '''']"] h
  have "get_document_similarity ''  '' [''Quarterly revenue'', ''''] = Inr 0"
    by blast
  with h b show ?thesis by (intro conjI)
qed

text \<open>
  C3 (amended). For every question, list of retrieved passages and answer, the reward
  is \<open>0.7 * similarityScore + 0.3 * lengthScore\<close>, where \<open>similarityScore\<close> (the
  result of \<open>get_document_similarity\<close>) is the mean over the passages of the fraction of
  the question's lowercase whitespace-tokenised words that literally appear in the
  passage's lowercase text (0 if there are no passages) and \<open>lengthScore\<close> is
  \<open>min(answerLength / 1000, 1)\<close>; the reward lies in \<open>[0, 1]\<close>. With a single passage
  the similarity is 1 when the question has at least one word and every word appears in
  the passage, and 0 when no word does.
\<close>

theorem reward_formula:
  "compute_reward question docs answer = Inr (reward_spec question docs answer)
   \<and> get_document_similarity question docs = Inr (similarity_spec question docs)
   \<and> 0 \<le> reward_spec question docs answer \<and> reward_spec question docs answer \<le> 1
   \<and> (py_split (py_lower question) \<noteq> []
        \<and> list_all (str_contains (py_lower passage)) (py_split (py_lower question))
        \<longrightarrow> similarity_spec question [passage] = 1)
   \<and> (list_all (\<lambda>w. \<not> str_contains (py_lower passage) w) (py_split (py_lower question))
        \<longrightarrow> similarity_spec question [passage] = 0)"
proof -
  have r: "compute_reward question docs answer = Inr (reward_spec question docs answer)"
    by (simp add: compute_reward_def get_document_similarity_spec reward_spec_def Let_def)
  have all: "similarity_spec question [passage] = 1"
    if "py_split (py_lower question) \<noteq> []"
      and "list_all (str_contains (py_lower passage)) (py_split (py_lower question))"
  proof -
    from that(2) have "filter (str_contains (py_lower passage)) (py_split (py_lower question))
        = py_split (py_lower question)"
      by (simp add: list_all_iff)
    with that(1) show ?thesis
      by (simp add: similarity_spec_def word_fraction_def Let_def)
  qed
  have none: "similarity_spec question [passage] = 0"
    if "list_all (\<lambda>w. \<not> str_contains (py_lower passage) w) (py_split (py_lower question))"
  proof -
    from that have "filter (str_contains (py_lower passage)) (py_split (py_lower question)) = []"
      by (simp add: list_all_iff filter_empty_conv)
    then show ?thesis
      by (simp add: similarity_spec_def word_fraction_def Let_def)
  qed
  from r get_document_similarity_spec [of question docs] reward_spec_range [of question docs answer]
    all none
  show ?thesis by blast
qed

text \<open>
  The question \<open>What is the revenue\<close>: a passage with all four words scores 1, a
  passage with none scores 0, and the reward of a 13-character answer follows.
\<close>

theorem reward_formula_witness:
  "py_split (py_lower ''What is the revenue'') \<noteq> []
   \<and> list_all (str_contains (py_lower ''The revenue is what we report''))
        (py_split (py_lower ''What is the revenue''))
   \<and> get_document_similarity ''What is the revenue'' [''The revenue is what we report''] = Inr 1
   \<and> list_all (\<lambda>w. \<not> str_contains (py_lower ''Nothing relevant'') w)
        (py_split (py_lower ''What is the revenue''))
   \<and> get_document_similarity ''What is the revenue'' [''Nothing relevant''] = Inr 0
   \<and> compute_reward ''What is the revenue'' [''The revenue is what we report''] ''Revenue rose.''
       = Inr (0.7 * 1 + 0.3 * (13 / 1000))"
proof -
  have w: "py_split (py_lower ''What is the revenue'') = [''what'', ''is'', ''the'', ''revenue'']"
    by (simp add: py_split_def py_lower_def lower_char_def is_space_def)
  have a: "list_all (str_contains (py_lower ''The revenue is what we report''))
        (py_split (py_lower ''What is the revenue''))"
    unfolding w by (simp add: py_lower_def lower_char_def)
  have n: "list_all (\<lambda>w. \<not> str_contains (py_lower ''Nothing relevant'') w)
        (py_split (py_lower ''What is the revenue''))"
    unfolding w by (simp add: py_lower_def lower_char_def)
  have ne: "py_split (py_lower ''What is the revenue'') \<noteq> []"
    unfolding w by simp
  note t1 = reward_formula [of "''What is the revenue''" "[''The revenue is what we report'']"
      "''Revenue rose.''" "''The revenue is what we report''"]
  note t2 = reward_formula [of "''What is the revenue''" "[''Nothing relevant'']"
      "''''" "''Nothing relevant''"]
  from t1 ne a have s1: "similarity_spec ''What is the revenue'' [''The revenue is what we report''] = 1"
    by blast
  from t2 n have s0: "similarity_spec ''What is the revenue'' [''Nothing relevant''] = 0"
    by blast
  from t1 have g1: "get_document_similarity ''What is the revenue'' [''The revenue is what we report'']
      = Inr (similarity_spec ''What is the revenue'' [''The revenue is what we report''])"
    by blast
  from t2 have g0: "get_document_similarity ''What is the revenue'' [''Nothing relevant'']
      = Inr (similarity_spec ''What is the revenue'' [''Nothing relevant''])"
    by blast
  from t1 have c: "compute_reward ''What is the revenue'' [''The revenue is what we report''] ''Revenue rose.''
      = Inr (reward_spec ''What is the revenue'' [''The revenue is what we report''] ''Revenue rose.'')"
    by blast
  have c': "compute_reward ''What is the revenue'' [''The revenue is what we report''] ''Revenue rose.''
       = Inr (0.7 * 1 + 0.3 * (13 / 1000))"
    unfolding c reward_spec_def s1 by simp
  from ne a n g1 g0 s1 s0 c' show ?thesis by simp
qed

text \<open>
  C3 as stated fails for a question without words: every word of the empty question
  appears in the passage, and the similarity is 0, not 1.
\<close>

theorem reward_counterexample:
  "list_all (str_contains (py_lower ''Quarterly revenue'')) (py_split (py_lower ''''))
   \<and> get_document_similarity '''' [''Quarterly revenue''] = Inr 0"
  by (simp add: get_document_similarity_def py_split_def py_lower_def py_div_def)

section \<open>Properties of the policy controller\<close>

lemma map_of_dict_set: "map_of (dict_set k v d) = (map_of d)(k \<mapsto> v)"
  by (induction d) (auto simp: fun_eq_iff)

lemma keys_dict_set: "map_of d k \<noteq> None \<Longrightarrow> map fst (dict_set k v d) = map fst d"
  by (induction d) auto


lemma max_from_first_max:
  "\<exists>pre post. b # xs = pre @ max_from key b xs # post
     \<and> (\<forall>y\<in>set pre. key y < key (max_from key b xs))
     \<and> (\<forall>y\<in>set post. key y \<le> key (max_from key b xs))"
proof (induction xs arbitrary: b)
  case Nil
  show ?case by (rule exI [of _ "[]"]) simp
next
  case (Cons x xs)
  show ?case
  proof (cases "key b < key x")
    case True
    then have e: "max_from key b (x # xs) = max_from key x xs" by simp
    from Cons.IH [of x] obtain pre post where
      d: "x # xs = pre @ max_from key x xs # post"
      and lt: "\<forall>y\<in>set pre. key y < key (max_from key x xs)"
      and le: "\<forall>y\<in>set post. key y \<le> key (max_from key x xs)"
      by blast
    have "x \<in> set (pre @ max_from key x xs # post)"
      by (subst d [symmetric]) simp
    then have "key x \<le> key (max_from key x xs)" using lt le by auto
    with True have bl: "key b < key (max_from key x xs)" by simp
    have "b # x # xs = (b # pre) @ max_from key x xs # post"
      by (subst d) simp
    with lt le bl show ?thesis
      unfolding e by (intro exI [of _ "b # pre"] exI [of _ post] conjI) auto
  next
    case False
    then have e: "max_from key b (x # xs) = max_from key b xs" by simp
    from Cons.IH [of b] obtain pre post where
      d: "b # xs = pre @ max_from key b xs # post"
      and lt: "\<forall>y\<in>set pre. key y < key (max_from key b xs)"
      and le: "\<forall>y\<in>set post. key y \<le> key (max_from key b xs)"
      by blast
    show ?thesis
    proof (cases pre)
      case Nil
      have r: "max_from key b xs = b" using d Nil by (metis append_Nil list.inject)
      have p: "post = xs" using d Nil by (metis append_Nil list.inject)
      have "b # x # xs = [] @ b # (x # xs)" by simp
      moreover have "\<forall>y\<in>set (x # xs). key y \<le> key b"
        using False le r p by auto
      ultimately show ?thesis
        unfolding e r by (intro exI [of _ "[]"] exI [of _ "x # xs"] conjI) auto
    next
      case (Cons p pre')
      have p: "p = b" using d Cons by (metis append_Cons list.inject)
      have r: "xs = pre' @ max_from key b xs # post"
        using d Cons by (metis append_Cons list.inject)
      from lt Cons p have "key b < key (max_from key b xs)" by simp
      with False have xl: "key x < key (max_from key b xs)" by simp
      have "b # x # xs = (b # x # pre') @ max_from key b xs # post"
        by (subst r) simp
      moreover have "\<forall>y\<in>set (b # x # pre'). key y < key (max_from key b xs)"
        using lt Cons p xl by auto
      ultimately show ?thesis
        using le unfolding e by (intro exI [of _ "b # x # pre'"] exI [of _ post] conjI) auto
    qed
  qed
qed

lemma max_from_id_Max: "max_from id b xs = Max (set (b # xs))"
proof -
  from max_from_first_max [of b xs id] obtain pre post where
    d: "b # xs = pre @ max_from id b xs # post"
    and lt: "\<forall>y\<in>set pre. y < max_from id b xs"
    and le: "\<forall>y\<in>set post. y \<le> max_from id b xs"
    by auto
  have mem: "max_from id b xs \<in> set (b # xs)" by (subst d) simp
  have ub: "y \<le> max_from id b xs" if "y \<in> set (b # xs)" for y
    using that lt le by (subst (asm) d) auto
  show ?thesis
    by (rule sym, rule Max_eqI) (use mem ub in auto)
qed

lemma py_max_values: "row \<noteq> [] \<Longrightarrow> py_max id (map snd row) = Inr (Max (snd ` set row))"
  by (cases row) (simp_all add: py_max_def max_from_id_Max del: set_simps, simp)

lemma zero_row_canonical:
  "zero_row canonical_actions =
     [(''chunk_small'', 0), (''chunk_medium'', 0), (''chunk_large'', 0),
      (''similarity_standard'', 0), (''similarity_mmr'', 0)]"
  by (simp add: zero_row_def canonical_actions_def)

text \<open>
  C1 (amended). Let \<open>row0\<close> be the row of state \<open>s\<close> after lazy initialisation: its row
  in the table if \<open>s\<close> has been seen, and zero for the five canonical actions otherwise.
  For every action \<open>a\<close> that is a key of \<open>row0\<close>, with value \<open>q\<close>, every reward and every
  next state that is absent or a non-empty key whose row, if present, is not empty,
  \<open>update_q_value\<close> returns normally and replaces \<open>Q[s][a]\<close> by
  \<open>q + learning_rate * (reward + discount_factor * maxNextQ - q)\<close>, where \<open>maxNextQ\<close> is
  the maximum over the next state's row if the table has that state and 0 otherwise.
  Every other entry of the row of \<open>s\<close> is as in \<open>row0\<close>, every other row and the three
  hyperparameters are unchanged. In particular a value 0 becomes exactly 1 with reward 1,
  discount factor 0 and learning rate 1, and stays exactly 0 with learning rate 0
  whatever the reward.
\<close>

theorem update_q_value_rule:
  assumes row0: "row0 = (case map_of (q_table self) state of
                           None \<Rightarrow> zero_row canonical_actions | Some r \<Rightarrow> r)"
    and act: "map_of row0 action = Some q"
    and nxt: "next_state_ok (q_table self) next_state"
  shows "\<exists>self'.
           update_q_value self state action reward next_state = (Inr (), self')
         \<and> q_lookup (q_table self') state action =
             Some (q + learning_rate self *
                    (reward + discount_factor self * max_next_q_spec (q_table self) next_state - q))
         \<and> (\<forall>a. a \<noteq> action \<longrightarrow> q_lookup (q_table self') state a = map_of row0 a)
         \<and> (\<forall>s. s \<noteq> state \<longrightarrow> map_of (q_table self') s = map_of (q_table self) s)
         \<and> learning_rate self' = learning_rate self
         \<and> discount_factor self' = discount_factor self
         \<and> exploration_rate self' = exploration_rate self
         \<and> (q = 0 \<and> reward = 1 \<and> discount_factor self = 0 \<and> learning_rate self = 1
                \<longrightarrow> q_lookup (q_table self') state action = Some 1)
         \<and> (q = 0 \<and> learning_rate self = 0
                \<longrightarrow> q_lookup (q_table self') state action = Some 0)"
proof -
  define tbl1 where
    "tbl1 = (if \<not> dict_has (q_table self) state
             then dict_set state (zero_row canonical_actions) (q_table self) else q_table self)"
  have row1: "map_of tbl1 state = Some row0"
    by (auto simp: tbl1_def row0 dict_has_def map_of_dict_set)
  have other1: "map_of tbl1 s = map_of (q_table self) s" if "s \<noteq> state" for s
    using that by (simp add: tbl1_def map_of_dict_set)
  have zero_max: "Max (snd ` set (zero_row canonical_actions)) = 0"
    by (simp add: zero_row_canonical)
  have m: "(case next_state of
              None \<Rightarrow> Inr 0
            | Some ns \<Rightarrow>
                if ns \<noteq> [] \<and> dict_has tbl1 ns
                then (case dict_get tbl1 ns of
                        Inl e \<Rightarrow> Inl e
                      | Inr row \<Rightarrow> py_max id (map snd row))
                else Inr 0)
           = Inr (max_next_q_spec (q_table self) next_state)"
  proof (cases next_state)
    case None
    then show ?thesis by (simp add: max_next_q_spec_def)
  next
    case (Some ns)
    with nxt have ne: "ns \<noteq> []"
      and rne: "\<And>row. map_of (q_table self) ns = Some row \<Longrightarrow> row \<noteq> []"
      by (auto simp: next_state_ok_def)
    show ?thesis
    proof (cases "ns = state")
      case True
      show ?thesis
      proof (cases "map_of (q_table self) state")
        case None
        with True Some ne row1 row0 show ?thesis
          by (simp add: max_next_q_spec_def dict_has_def dict_get_def zero_row_canonical
              py_max_def)
      next
        case (Some r)
        with True \<open>next_state = Some ns\<close> ne row1 row0 rne [of r] show ?thesis
          by (simp add: max_next_q_spec_def dict_has_def dict_get_def py_max_values)
      qed
    next
      case False
      with Some ne other1 [of ns] rne show ?thesis
        by (auto simp: max_next_q_spec_def dict_has_def dict_get_def py_max_values
            split: option.splits)
    qed
  qed
  let ?v = "q + learning_rate self *
              (reward + discount_factor self * max_next_q_spec (q_table self) next_state - q)"
  let ?self1 = "if \<not> dict_has (q_table self) state
                then self\<lparr>q_table := dict_set state (zero_row canonical_actions) (q_table self)\<rparr>
                else self"
  have t1: "q_table ?self1 = tbl1" by (simp add: tbl1_def)
  let ?self' = "?self1\<lparr>q_table := dict_set state (dict_set action ?v row0) tbl1\<rparr>"
  have run: "update_q_value self state action reward next_state = (Inr (), ?self')"
    unfolding update_q_value_def Let_def t1 m
    by (simp add: dict_get_def row1 act)
  have tbl': "q_table ?self' = dict_set state (dict_set action ?v row0) tbl1" by simp
  have new: "q_lookup (q_table ?self') state action = Some ?v"
    unfolding tbl' q_lookup_def by (simp add: map_of_dict_set)
  have rest: "\<forall>a. a \<noteq> action \<longrightarrow> q_lookup (q_table ?self') state a = map_of row0 a"
    unfolding tbl' q_lookup_def by (simp add: map_of_dict_set)
  have others: "\<forall>s. s \<noteq> state \<longrightarrow> map_of (q_table ?self') s = map_of (q_table self) s"
    unfolding tbl' by (simp add: map_of_dict_set other1)
  have hyper: "learning_rate ?self' = learning_rate self
      \<and> discount_factor ?self' = discount_factor self
      \<and> exploration_rate ?self' = exploration_rate self"
    by simp
  have one: "q = 0 \<and> reward = 1 \<and> discount_factor self = 0 \<and> learning_rate self = 1
      \<longrightarrow> q_lookup (q_table ?self') state action = Some 1"
    unfolding new by simp
  have zero: "q = 0 \<and> learning_rate self = 0
      \<longrightarrow> q_lookup (q_table ?self') state action = Some 0"
    unfolding new by simp
  show ?thesis
    apply (rule exI [of _ ?self'])
    apply (intro conjI)
            apply (rule run)
           apply (rule new)
          apply (rule rest)
         apply (rule others)
        apply (rule hyper [THEN conjunct1])
       apply (rule hyper [THEN conjunct2, THEN conjunct1])
      apply (rule hyper [THEN conjunct2, THEN conjunct2])
     apply (rule one)
    apply (rule zero)
    done
qed





text \<open>
  The rule at a fresh agent with learning rate 1 and discount factor 0: the unseen state
  gets its zero row and the updated action the value 1.
\<close>

theorem update_q_value_rule_witness:
  "\<exists>self'. update_q_value (RLAgent 1 0 0.2) ''s'' ''chunk_large'' 1 None = (Inr (), self')
     \<and> q_lookup (q_table self') ''s'' ''chunk_large'' = Some 1
     \<and> q_lookup (q_table self') ''s'' ''chunk_small'' = Some 0"
proof -
  have r: "zero_row canonical_actions =
      (case map_of (q_table (RLAgent 1 0 0.2)) ''s'' of
         None \<Rightarrow> zero_row canonical_actions | Some r \<Rightarrow> r)"
    by (simp add: RLAgent_def)
  have a: "map_of (zero_row canonical_actions) ''chunk_large'' = Some 0"
    by (simp add: zero_row_canonical)
  have n: "next_state_ok (q_table (RLAgent 1 0 0.2)) None"
    by (simp add: next_state_ok_def)
  from update_q_value_rule [OF r a n, of 1] show ?thesis
    by (auto simp: RLAgent_def max_next_q_spec_def zero_row_canonical)
qed




text \<open>
  C1 as stated fails. A row that lacks the action (here a row created by
  \<open>choose_action\<close> for the single available action \<open>chunk_small\<close>) makes the update
  raise \<open>KeyError\<close> and change nothing. The empty string is a next state that is not
  null and is present in the table, with maximum 4, yet the update uses 0 for it:
  the value 4 becomes 0, not \<open>4 + 1 * (0 + 1 * 4 - 4) = 4\<close>. A next state whose row is
  empty makes the update raise \<open>ValueError\<close>.
\<close>

theorem update_q_value_counterexample:
  "update_q_value (RLAgent 0.1 0.9 0.2\<lparr>q_table := [(''s'', [(''chunk_small'', 0)])]\<rparr>)
       ''s'' ''chunk_large'' 1 None
     = (Inl KeyError, RLAgent 0.1 0.9 0.2\<lparr>q_table := [(''s'', [(''chunk_small'', 0)])]\<rparr>)
   \<and> update_q_value (RLAgent 1 1 0.2\<lparr>q_table := [('''', [(''chunk_small'', 4)])]\<rparr>)
       '''' ''chunk_small'' 0 (Some '''')
     = (Inr (), RLAgent 1 1 0.2\<lparr>q_table := [('''', [(''chunk_small'', 0)])]\<rparr>)
   \<and> max_next_q_spec [('''', [(''chunk_small'', 4)])] (Some '''') = 4
   \<and> update_q_value (RLAgent 0.1 0.9 0.2\<lparr>q_table := [(''t'', [])]\<rparr>)
       ''s'' ''chunk_small'' 1 (Some ''t'')
     = (Inl ValueError,
        RLAgent 0.1 0.9 0.2\<lparr>q_table := [(''t'', []), (''s'', zero_row canonical_actions)]\<rparr>)"
  by (simp add: update_q_value_def RLAgent_def dict_has_def dict_get_def py_max_def
      max_next_q_spec_def zero_row_canonical)




text \<open>
  C2 (amended). With the exploration rate fixed at 0 and a draw of \<open>random.random()\<close>
  (never negative), \<open>choose_action\<close> returns the first entry with the maximum value in
  the row of the state key: every entry before it has a strictly smaller value and
  every entry after it a value that is not larger. If the state has not been seen, its
  row is first initialised to zero for the actions of the list passed as
  \<open>available_actions\<close>, and no other row changes; a state seen before leaves the agent
  unchanged. The row must not be empty.
\<close>

theorem choose_action_greedy:
  assumes rate: "exploration_rate self = 0"
    and draw: "0 \<le> draw"
    and row0: "row0 = (case map_of (q_table self) state_key of
                         None \<Rightarrow> zero_row available_actions | Some r \<Rightarrow> r)"
    and ne: "row0 \<noteq> []"
  shows "\<exists>self' pre a v post.
           choose_action draw pick self state_key available_actions = (Inr a, self')
         \<and> row0 = pre @ (a, v) # post
         \<and> (\<forall>p\<in>set pre. snd p < v)
         \<and> (\<forall>p\<in>set post. snd p \<le> v)
         \<and> map_of (q_table self') state_key = Some row0
         \<and> (\<forall>s. s \<noteq> state_key \<longrightarrow> map_of (q_table self') s = map_of (q_table self) s)
         \<and> (dict_has (q_table self) state_key \<longrightarrow> self' = self)"
proof -
  let ?self1 = "if \<not> dict_has (q_table self) state_key
                then self\<lparr>q_table := dict_set state_key (zero_row available_actions) (q_table self)\<rparr>
                else self"
  have row1: "map_of (q_table ?self1) state_key = Some row0"
    by (auto simp: row0 dict_has_def map_of_dict_set)
  have other1: "\<forall>s. s \<noteq> state_key \<longrightarrow> map_of (q_table ?self1) s = map_of (q_table self) s"
    by (simp add: map_of_dict_set)
  have same: "dict_has (q_table self) state_key \<longrightarrow> ?self1 = self" by simp
  from ne obtain b xs where bx: "row0 = b # xs" by (cases row0) auto
  from max_from_first_max [of b xs snd] obtain pre post where
    d: "b # xs = pre @ max_from snd b xs # post"
    and lt: "\<forall>p\<in>set pre. snd p < snd (max_from snd b xs)"
    and le: "\<forall>p\<in>set post. snd p \<le> snd (max_from snd b xs)"
    by blast
  have run: "choose_action draw pick self state_key available_actions
               = (Inr (fst (max_from snd b xs)), ?self1)"
    using rate draw row1
    unfolding choose_action_def Let_def
    by (simp add: dict_get_def py_max_def bx)
  have split: "row0 = pre @ (fst (max_from snd b xs), snd (max_from snd b xs)) # post"
    using d bx by simp
  from run split lt le row1 other1 same show ?thesis by blast
qed




text \<open>
  A row with a tie between \<open>chunk_medium\<close> and \<open>chunk_large\<close>: the earlier one is
  chosen.
\<close>

theorem choose_action_greedy_witness:
  "choose_action 0.37 3 (RLAgent 0.1 0.9 0\<lparr>q_table :=
        [(''s'', [(''chunk_small'', 0.2), (''chunk_medium'', 0.5), (''chunk_large'', 0.5)])]\<rparr>)
      ''s'' canonical_actions
    = (Inr ''chunk_medium'', RLAgent 0.1 0.9 0\<lparr>q_table :=
        [(''s'', [(''chunk_small'', 0.2), (''chunk_medium'', 0.5), (''chunk_large'', 0.5)])]\<rparr>)
   \<and> (\<exists>self' pre a v post.
         choose_action 0.37 3 (RLAgent 0.1 0.9 0\<lparr>q_table :=
            [(''s'', [(''chunk_small'', 0.2), (''chunk_medium'', 0.5), (''chunk_large'', 0.5)])]\<rparr>)
           ''s'' canonical_actions = (Inr a, self')
       \<and> [(''chunk_small'', 0.2::real), (''chunk_medium'', 0.5), (''chunk_large'', 0.5)]
            = pre @ (a, v) # post
       \<and> (\<forall>p\<in>set pre. snd p < v)
       \<and> (\<forall>p\<in>set post. snd p \<le> v))"
proof -
  let ?row = "[(''chunk_small'', 0.2::real), (''chunk_medium'', 0.5), (''chunk_large'', 0.5)]"
  let ?ag = "RLAgent 0.1 0.9 0\<lparr>q_table := [(''s'', ?row)]\<rparr>"
  have rate: "exploration_rate ?ag = 0" by (simp add: RLAgent_def)
  have draw: "0 \<le> (0.37::real)" by simp
  have row0: "?row = (case map_of (q_table ?ag) ''s'' of
                         None \<Rightarrow> zero_row canonical_actions | Some r \<Rightarrow> r)"
    by (simp add: RLAgent_def)
  have ne: "?row \<noteq> []" by simp
  have c: "choose_action 0.37 3 ?ag ''s'' canonical_actions = (Inr ''chunk_medium'', ?ag)"
    by (simp add: choose_action_def RLAgent_def dict_has_def dict_get_def py_max_def)
  have g: "\<exists>self' pre a v post.
         choose_action 0.37 3 ?ag ''s'' canonical_actions = (Inr a, self')
       \<and> ?row = pre @ (a, v) # post
       \<and> (\<forall>p\<in>set pre. snd p < v)
       \<and> (\<forall>p\<in>set post. snd p \<le> v)"
    using choose_action_greedy [OF rate draw row0 ne, of 3]
    apply (elim exE conjE)
    apply (intro exI conjI)
       apply assumption+
    done
  show ?thesis by (rule conjI [OF c g])
qed

text \<open>
  C2 as stated fails for an unseen state: the row is initialised from the list passed
  as \<open>available_actions\<close>, not from the five canonical actions. With the one action
  \<open>similarity_mmr\<close> available the new row has that one entry and \<open>similarity_mmr\<close> is
  returned, where the row of five zeros gives \<open>chunk_small\<close>; with no action available
  the new row is empty and \<open>max\<close> raises \<open>ValueError\<close>.
\<close>

theorem choose_action_counterexample:
  "choose_action 0.5 0 (RLAgent 0.1 0.9 0) ''s'' [''similarity_mmr'']
     = (Inr ''similarity_mmr'', RLAgent 0.1 0.9 0\<lparr>q_table := [(''s'', [(''similarity_mmr'', 0)])]\<rparr>)
   \<and> choose_action 0.5 0 (RLAgent 0.1 0.9 0\<lparr>q_table := [(''s'', zero_row canonical_actions)]\<rparr>)
        ''s'' [''similarity_mmr'']
     = (Inr ''chunk_small'', RLAgent 0.1 0.9 0\<lparr>q_table := [(''s'', zero_row canonical_actions)]\<rparr>)
   \<and> choose_action 0.5 0 (RLAgent 0.1 0.9 0) ''s'' []
     = (Inl ValueError, RLAgent 0.1 0.9 0\<lparr>q_table := [(''s'', [])]\<rparr>)"
  by (simp add: choose_action_def RLAgent_def dict_has_def dict_get_def py_max_def
      zero_row_def canonical_actions_def)

lemma py_join_append:
  "xs \<noteq> [] \<Longrightarrow> ys \<noteq> [] \<Longrightarrow> py_join sep (xs @ ys) = py_join sep xs @ sep @ py_join sep ys"
proof (induction sep xs rule: py_join.induct)
  case (1 sep)
  then show ?case by simp
next
  case (2 sep x)
  then show ?case by (cases ys) simp_all
next
  case (3 sep x y zs)
  then show ?case by simp
qed

section \<open>Properties of the state key\<close>

text \<open>
  C4 (amended). The state key is a function of the first five embedding components and
  the first three document identifiers only, so calls with an identical embedding vector
  and an identical document-id triple return an identical key. The key is the first five
  components, each formatted to two decimals, joined with \<open>-\<close>, then one more \<open>-\<close>,
  then the first three document identifiers joined with \<open>-\<close>; in \<open>user_input\<close> an
  identifier is the first five characters of a document's name. With at least one
  component and one identifier the key is all these pieces joined with \<open>-\<close>.
\<close>

theorem state_key_structure:
  "get_state_key emb ids
     = py_join ''-'' (map format_2f (take 5 emb)) @ ''-'' @ py_join ''-'' (take 3 ids)
   \<and> get_state_key emb (map (\<lambda>pdf. take 5 (name pdf)) docs)
     = py_join ''-'' (map format_2f (take 5 emb)) @ ''-''
         @ py_join ''-'' (map (\<lambda>pdf. take 5 (name pdf)) (take 3 docs))
   \<and> (take 5 emb = take 5 emb' \<and> take 3 ids = take 3 ids'
        \<longrightarrow> get_state_key emb ids = get_state_key emb' ids')
   \<and> (emb \<noteq> [] \<and> ids \<noteq> []
        \<longrightarrow> get_state_key emb ids = py_join ''-'' (map format_2f (take 5 emb) @ take 3 ids))"
proof -
  have j: "get_state_key emb ids = py_join ''-'' (map format_2f (take 5 emb) @ take 3 ids)"
    if "emb \<noteq> []" "ids \<noteq> []"
  proof -
    from that have "map format_2f (take 5 emb) \<noteq> []" "take 3 ids \<noteq> []" by simp_all
    then show ?thesis by (simp add: get_state_key_def py_join_append)
  qed
  have k: "get_state_key emb (map (\<lambda>pdf. take 5 (name pdf)) docs)
     = py_join ''-'' (map format_2f (take 5 emb)) @ ''-''
         @ py_join ''-'' (map (\<lambda>pdf. take 5 (name pdf)) (take 3 docs))"
    by (simp add: get_state_key_def take_map)
  have d: "take 5 emb = take 5 emb' \<and> take 3 ids = take 3 ids'
        \<longrightarrow> get_state_key emb ids = get_state_key emb' ids'"
    by (simp add: get_state_key_def)
  from k d j show ?thesis
    by (simp add: get_state_key_def)
qed

text \<open>
  Two calls that differ only in the sixth component and the fourth identifier return the
  same key.
\<close>

theorem state_key_structure_witness:
  "get_state_key [0.1, -0.25, 3, 0.126, 0.5, 7] [''repor'', ''notes'', ''memo.'', ''extra'']
     = get_state_key [0.1, -0.25, 3, 0.126, 0.5, 9] [''repor'', ''notes'', ''memo.'', ''other'']
   \<and> get_state_key [0.1, -0.25, 3, 0.126, 0.5, 7] [''repor'', ''notes'', ''memo.'', ''extra'']
     = ''0.10--0.25-3.00-0.13-0.50-repor-notes-memo.''"
proof -
  have e: "take 5 [0.1, -0.25, 3, 0.126, 0.5, 7 :: real] = take 5 [0.1, -0.25, 3, 0.126, 0.5, 9]"
    by simp
  have i: "take 3 [''repor'', ''notes'', ''memo.'', ''extra'']
      = take 3 [''repor'', ''notes'', ''memo.'', ''other'']"
    by simp
  have ne: "[0.1, -0.25, 3, 0.126, 0.5, 7 :: real] \<noteq> []"
    "[''repor'', ''notes'', ''memo.'', ''extra''] \<noteq> []"
    by simp_all
  note t = state_key_structure [of "[0.1, -0.25, 3, 0.126, 0.5, 7]"
      "[''repor'', ''notes'', ''memo.'', ''extra'']" "[]" "[0.1, -0.25, 3, 0.126, 0.5, 9]"
      "[''repor'', ''notes'', ''memo.'', ''other'']"]
  from t e i have same: "get_state_key [0.1, -0.25, 3, 0.126, 0.5, 7]
        [''repor'', ''notes'', ''memo.'', ''extra'']
     = get_state_key [0.1, -0.25, 3, 0.126, 0.5, 9] [''repor'', ''notes'', ''memo.'', ''other'']"
    by blast
  from t ne have "get_state_key [0.1, -0.25, 3, 0.126, 0.5, 7]
        [''repor'', ''notes'', ''memo.'', ''extra'']
     = py_join ''-'' (map format_2f (take 5 [0.1, -0.25, 3, 0.126, 0.5, 7])
         @ take 3 [''repor'', ''notes'', ''memo.'', ''extra''])"
    by blast
  also have "\<dots> = ''0.10--0.25-3.00-0.13-0.50-repor-notes-memo.''"
    by code_simp
  finally show ?thesis using same by simp
qed

text \<open>
  C4 as stated fails: the key is not the joined components directly followed by the
  joined identifiers, since the source puts a separator between the two parts.
\<close>

theorem state_key_counterexample:
  "get_state_key [0.1, 0.2, 0.3, 0.4, 0.5] [''repor''] = ''0.10-0.20-0.30-0.40-0.50-repor''
   \<and> py_join ''-'' (map format_2f (take 5 [0.1, 0.2, 0.3, 0.4, 0.5]))
       @ py_join ''-'' (take 3 [''repor''])
     = ''0.10-0.20-0.30-0.40-0.50repor''"
  by code_simp

section \<open>Properties of persistence\<close>

text \<open>
  C9. When no file exists at the path, \<open>load_model\<close> returns normally, whatever the
  JSON decoder would do, and leaves the agent, and with it the value table, exactly as
  it was; for an agent that has just been constructed the table is still empty.
\<close>

theorem load_model_cold_start:
  assumes "\<not> dict_has fs filepath"
  shows "load_model jl self filepath fs = Inr self
       \<and> (\<exists>loaded. load_model jl (RLAgent lr df er) filepath fs = Inr loaded
                     \<and> q_table loaded = [])"
proof -
  from assms have same: "load_model jl a filepath fs = Inr a" for a
    by (simp add: load_model_def)
  have "q_table (RLAgent lr df er) = []" by (simp add: RLAgent_def)
  with same [of self] same [of "RLAgent lr df er"] show ?thesis by simp
qed

text \<open>A file system without \<open>rl_model.json\<close>, and a freshly constructed agent.\<close>

theorem load_model_cold_start_witness:
  "\<not> dict_has [(''notes.txt'', ''x'')] ''rl_model.json''
   \<and> load_model (\<lambda>text. Inl ValueError) (RLAgent 0.1 0.9 0.2) ''rl_model.json''
        [(''notes.txt'', ''x'')]
     = Inr (RLAgent 0.1 0.9 0.2)"
proof -
  have h: "\<not> dict_has [(''notes.txt'', ''x'')] ''rl_model.json''"
    by (simp add: dict_has_def)
  from load_model_cold_start [OF h, THEN conjunct1] h show ?thesis by simp
qed


subsection \<open>The serialised table\<close>



















section \<open>Properties of the classification\<close>


lemma str_contains_empty: "str_contains hay []"
  by (cases hay) simp_all

lemma str_contains_append: "str_contains a n \<Longrightarrow> str_contains (a @ b) n"
proof (induction a)
  case Nil
  then show ?case by (simp add: str_contains_empty)
next
  case (Cons c cs)
  show ?case
  proof (cases "take (length n) (c # cs) = n")
    case True
    then have "length (take (length n) (c # cs)) = length n" by simp
    then have le: "length n \<le> length (c # cs)" by simp
    have "take (length n) (c # (cs @ b)) = n"
      using take_append [of "length n" "c # cs" b] True le by simp
    then show ?thesis by simp
  next
    case False
    with Cons.prems have "str_contains cs n" by simp
    with Cons.IH show ?thesis by simp
  qed
qed

lemma py_lower_append: "py_lower (a @ b) = py_lower a @ py_lower b"
  by (simp add: py_lower_def)

lemma pdf_question_has_indicator:
  "mentions_indicator (''what does the pdf say about '' @ x)"
proof -
  have "str_contains (py_lower ''what does the pdf say about '') (py_lower ''pdf'')"
    by code_simp
  then have "str_contains (py_lower (''what does the pdf say about '' @ x)) (py_lower ''pdf'')"
    unfolding py_lower_append by (rule str_contains_append)
  moreover have "''pdf'' \<in> set pdf_indicators" by (simp add: pdf_indicators_def)
  ultimately show ?thesis unfolding mentions_indicator_def list_ex_iff by blast
qed

lemma hello_is_opener: "conversational_opener ''hello'' \<and> \<not> mentions_indicator ''hello''"
  by code_simp

text \<open>
  C5 (amended). For every question and document list: with no documents the question
  is general; otherwise it is document-related if it mentions a loaded document's name
  or a document-indicating keyword; otherwise it is general if it contains a
  conversational opener; otherwise it is document-related. In particular \<open>hello\<close> is
  general with documents present when none of their names (lowercase, \<open>.pdf\<close>
  removed) occurs in it, and \<open>what does the pdf say about X\<close> is document-related
  whenever documents are present.
\<close>

theorem classification_rule:
  "is_pdf_related_question question pdf_docs
     = (truthy pdf_docs
        \<and> (mentions_document question (the pdf_docs) \<or> mentions_indicator question
            \<or> \<not> conversational_opener question))
   \<and> (\<not> truthy pdf_docs \<longrightarrow> \<not> is_pdf_related_question question pdf_docs)
   \<and> (truthy pdf_docs \<and> \<not> mentions_document ''hello'' (the pdf_docs)
        \<longrightarrow> \<not> is_pdf_related_question ''hello'' pdf_docs)
   \<and> (truthy pdf_docs
        \<longrightarrow> is_pdf_related_question (''what does the pdf say about '' @ x) pdf_docs)"
proof -
  have rule: "is_pdf_related_question q pdf_docs
     = (truthy pdf_docs
        \<and> (mentions_document q (the pdf_docs) \<or> mentions_indicator q
            \<or> \<not> conversational_opener q))" for q
    by (auto simp: is_pdf_related_question_def Let_def mentions_document_def
        mentions_indicator_def conversational_opener_def list_ex_iff o_def)
  from rule [of question] rule [of "''hello''"] rule [of "''what does the pdf say about '' @ x"]
    hello_is_opener pdf_question_has_indicator [of x]
  show ?thesis by blast
qed

text \<open>One document named \<open>report.pdf\<close>, and no documents at all.\<close>

theorem classification_rule_witness:
  "truthy (Some [\<lparr>name = ''report.pdf'', data = ''''\<rparr>])
   \<and> \<not> mentions_document ''hello'' [\<lparr>name = ''report.pdf'', data = ''''\<rparr>]
   \<and> \<not> is_pdf_related_question ''hello'' (Some [\<lparr>name = ''report.pdf'', data = ''''\<rparr>])
   \<and> is_pdf_related_question ''what does the pdf say about revenue''
        (Some [\<lparr>name = ''report.pdf'', data = ''''\<rparr>])
   \<and> \<not> truthy (None :: uploaded_pdf list option)
   \<and> \<not> is_pdf_related_question ''what does the pdf say about revenue'' None"
proof -
  let ?docs = "Some [\<lparr>name = ''report.pdf'', data = ''''\<rparr>]"
  have t: "truthy ?docs" by (simp add: truthy_def)
  have n: "\<not> truthy (None :: uploaded_pdf list option)" by (simp add: truthy_def)
  have m: "\<not> mentions_document ''hello'' [\<lparr>name = ''report.pdf'', data = ''''\<rparr>]"
    by code_simp
  note r = classification_rule [of "''hello''" ?docs "''revenue''"]
  have "\<not> is_pdf_related_question ''hello'' ?docs"
    using r [THEN conjunct2, THEN conjunct2, THEN conjunct1] t m by simp
  moreover have "is_pdf_related_question (''what does the pdf say about '' @ ''revenue'') ?docs"
    using r [THEN conjunct2, THEN conjunct2, THEN conjunct2] t by simp
  ultimately have a: "\<not> is_pdf_related_question ''hello'' ?docs
     \<and> is_pdf_related_question ''what does the pdf say about revenue'' ?docs"
    by simp
  from classification_rule [of "''what does the pdf say about revenue''" None "''''"] n
  have b: "\<not> is_pdf_related_question ''what does the pdf say about revenue'' None"
    by blast
  from t n m a b show ?thesis by simp
qed

text \<open>
  C5 as stated fails: the source tests the document names and keywords before the
  conversational openers. A question with an opener and a keyword is document-related,
  where the specification's precedence makes it general; and \<open>hello\<close> is document-related
  when a document is named \<open>hello.pdf\<close>.
\<close>

theorem classification_counterexample:
  "is_pdf_related_question ''hello, what does the pdf say''
       (Some [\<lparr>name = ''report.pdf'', data = ''''\<rparr>])
   \<and> \<not> classify_spec ''hello, what does the pdf say''
       (Some [\<lparr>name = ''report.pdf'', data = ''''\<rparr>])
   \<and> is_pdf_related_question ''hello'' (Some [\<lparr>name = ''hello.pdf'', data = ''''\<rparr>])"
  by code_simp

section \<open>Properties of the orchestrator\<close>















subsection \<open>Concrete passes\<close>

lemma demo_classified: "is_pdf_related_question ''revenue?'' (Some demo_docs)"
  unfolding demo_docs_def by code_simp

lemma demo_state_key:
  "get_state_key [1 / 2, 1 / 4, 0, - 1, 2, 7] [''repor''] = ''0.50-0.25-0.00--1.00-2.00-repor''"
  by code_simp

lemma demo_sizes:
  "decimal 5000 = ''5000''" "decimal 500 = ''500''" "decimal 15000 = ''15000''"
  "decimal 1500 = ''1500''"
  by (simp_all add: decimal.simps)

lemma demo_rewards:
  "compute_reward ''revenue?'' [''5000/500''] ''5000/500'' = Inr (3 / 1250)"
  "compute_reward ''revenue?'' [''15000/1500''] ''15000/1500'' = Inr (3 / 1000)"
  "format_2f (3 / 1250) = ''0.00''" "format_2f (3 / 1000) = ''0.00''"
  by code_simp+

lemma demo_no_image_asked:
  "\<not> list_ex (\<lambda>term. str_contains (py_lower ''revenue?'') term) image_related_terms"
  by code_simp


lemmas pass_defs = user_input_def initial_agent_def general_path_def document_path_def
  learn_and_log_def display_answer_def retrieve_and_answer_def text_chunks_for_def
  docs_for_def then_info_def finish_def choose_action_def update_q_value_def save_model_def
  demo_services_def demo_agent_def chunking_actions_def retrieval_actions_def
  RLAgent_def truthy_def random_choice_def dict_has_def dict_get_def py_max_def
  zero_row_canonical zero_row_canonical [unfolded canonical_actions_def]
  demo_sizes demo_rewards demo_no_image_asked Let_def

lemma demo_pass_small:
  "user_input (demo_services 0 0 True True True) ''revenue?'' ''Google AI'' (Some ''key'')
      (Some demo_docs) [] (Some (RLAgent 0.1 0.9 1)) [] []
   = (Inr (Some (RLAgent 0.1 0.9 1\<lparr>q_table := [(''0.50-0.25-0.00--1.00-2.00-repor'',
               [(''chunk_small'', 3 / 12500), (''chunk_medium'', 0),
                (''chunk_large'', 0), (''similarity_standard'', 0),
                (''similarity_mmr'', 0)])]\<rparr>)),
      \<lparr>agent = Some (RLAgent 0.1 0.9 1\<lparr>q_table := [(''0.50-0.25-0.00--1.00-2.00-repor'',
               [(''chunk_small'', 3 / 12500), (''chunk_medium'', 0),
                (''chunk_large'', 0), (''similarity_standard'', 0),
                (''similarity_mmr'', 0)])]\<rparr>),
       history = [(''revenue?'', ''5000/500'', ''Google AI'', ''2025-01-01 00:00:00'',
                   ''report.pdf'', ''chunk_small'', ''0.00'')],
       files = [(''faiss_index'', ''index''), (''rl_model.json'',
                  json_dumps demo_repr
                    [(''0.50-0.25-0.00--1.00-2.00-repor'', [(''chunk_small'', 3 / 12500),
                     (''chunk_medium'', 0), (''chunk_large'', 0), (''similarity_standard'', 0),
                     (''similarity_mmr'', 0)])])]\<rparr>)"
  by (simp add: pass_defs demo_classified) (simp add: demo_docs_def demo_state_key pass_defs)

lemma demo_pass_mmr:
  "user_input (demo_services 0 4 True True True) ''revenue?'' ''Google AI'' (Some ''key'')
      (Some demo_docs)
      [(''revenue?'', ''5000/500'', ''Google AI'', ''2025-01-01 00:00:00'',
        ''report.pdf'', ''chunk_small'', ''0.00'')]
      (Some (RLAgent 0.1 0.9 1\<lparr>q_table := [(''0.50-0.25-0.00--1.00-2.00-repor'',
               [(''chunk_small'', 3 / 12500), (''chunk_medium'', 0),
                (''chunk_large'', 0), (''similarity_standard'', 0),
                (''similarity_mmr'', 0)])]\<rparr>))
      []
      [(''faiss_index'', ''index''), (''rl_model.json'',
                  json_dumps demo_repr
                    [(''0.50-0.25-0.00--1.00-2.00-repor'', [(''chunk_small'', 3 / 12500),
                     (''chunk_medium'', 0), (''chunk_large'', 0), (''similarity_standard'', 0),
                     (''similarity_mmr'', 0)])])]
   = (Inr (Some (RLAgent 0.1 0.9 1\<lparr>q_table := [(''0.50-0.25-0.00--1.00-2.00-repor'',
               [(''chunk_small'', 3 / 12500), (''chunk_medium'', 0),
                (''chunk_large'', 0), (''similarity_standard'', 0),
                (''similarity_mmr'', 3 / 10000)])]\<rparr>)),
      \<lparr>agent = Some (RLAgent 0.1 0.9 1\<lparr>q_table := [(''0.50-0.25-0.00--1.00-2.00-repor'',
               [(''chunk_small'', 3 / 12500), (''chunk_medium'', 0),
                (''chunk_large'', 0), (''similarity_standard'', 0),
                (''similarity_mmr'', 3 / 10000)])]\<rparr>),
       history = [(''revenue?'', ''5000/500'', ''Google AI'', ''2025-01-01 00:00:00'',
                   ''report.pdf'', ''chunk_small'', ''0.00''),
                  (''revenue?'', ''15000/1500'', ''Google AI'', ''2025-01-01 00:00:00'',
                   ''report.pdf'', ''similarity_mmr'', ''0.00'')],
       files = [(''faiss_index'', ''index''), (''rl_model.json'',
                  json_dumps demo_repr
                    [(''0.50-0.25-0.00--1.00-2.00-repor'', [(''chunk_small'', 3 / 12500),
                     (''chunk_medium'', 0), (''chunk_large'', 0), (''similarity_standard'', 0),
                     (''similarity_mmr'', 3 / 10000)])])]\<rparr>)"
  by (simp add: pass_defs demo_classified) (simp add: demo_docs_def demo_state_key pass_defs)








lemma then_info_quiet:
  "\<forall>message. st sv (SidebarInfo message) = Inr () \<Longrightarrow> then_info sv message result = result"
  by (cases result) (simp_all add: then_info_def)

lemma retrieve_and_answer_knobs:
  assumes quiet: "\<forall>message. st sv (SidebarInfo message) = Inr ()"
  shows "retrieve_and_answer sv raw_text a q fs
       = (case action_knobs a of
            (chunk_size, chunk_overlap, search) \<Rightarrow>
              retrieve_with sv raw_text chunk_size chunk_overlap search q fs)"
  by (simp add: retrieve_and_answer_def retrieve_with_def text_chunks_for_def docs_for_def
      action_knobs_def retrieval_actions_def then_info_quiet [OF quiet] Let_def
      split: sum.splits)

text \<open>
  C6 (amended). For every document-path query the chosen action determines both knobs,
  and the pass uses exactly them. \<open>chunk_small\<close> gives the chunk size and overlap
  5000/500, \<open>chunk_medium\<close> 10000/1000 and every other action, so \<open>chunk_large\<close> and both
  retrieval strategies, 15000/1500, whatever chunking an earlier pass applied;
  \<open>similarity_mmr\<close> gives the diversity-aware search with \<open>k = 4\<close> from a pool of 10 and
  every other action the exact nearest-neighbour search. On a page that shows every
  sidebar message, retrieval and answer for an action are retrieval and answer with
  the knobs of that action, and a document-path pass that has read the documents,
  embedded the question and chosen the action \<open>a\<close> is that retrieval followed by the
  scoring, update and logging of its result. So \<open>similarity_standard\<close> retrieves and
  answers exactly as \<open>chunk_large\<close> does.
\<close>

theorem action_fixes_chunking_and_search:
  assumes quiet: "\<forall>message. st sv (SidebarInfo message) = Inr ()"
  shows "action_knobs ''chunk_small'' = (5000, 500, SimilaritySearch)
       \<and> action_knobs ''chunk_medium'' = (10000, 1000, SimilaritySearch)
       \<and> action_knobs ''chunk_large'' = (15000, 1500, SimilaritySearch)
       \<and> action_knobs ''similarity_standard'' = (15000, 1500, SimilaritySearch)
       \<and> action_knobs ''similarity_mmr'' = (15000, 1500, MaxMarginalRelevanceSearch 4 10)
       \<and> retrieve_and_answer sv raw_text a q fs
           = (case action_knobs a of
                (chunk_size, chunk_overlap, search) \<Rightarrow>
                  retrieve_with sv raw_text chunk_size chunk_overlap search q fs)
       \<and> retrieve_and_answer sv raw_text ''similarity_standard'' q fs
           = retrieve_and_answer sv raw_text ''chunk_large'' q fs
       \<and> (api_key \<noteq> None \<and> is_pdf_related_question q (Some docs) \<and> truthy (Some docs)
            \<and> initial_agent sv rl_agent fs = Inr current
            \<and> get_pdf_text sv docs = Inr raw_text \<and> embed_query sv q = Inr embedding
            \<and> choose_action (random_draw sv) (random_pick sv) current
                 (get_state_key embedding (map (\<lambda>pdf. take 5 (name pdf)) docs))
                 (chunking_actions @ retrieval_actions) = (Inr a, chosen)
            \<longrightarrow> user_input sv q m api_key (Some docs) hist rl_agent images fs
                 = (case action_knobs a of
                      (chunk_size, chunk_overlap, search) \<Rightarrow>
                        (case retrieve_with sv raw_text chunk_size chunk_overlap search q fs of
                           (Inl e, fs1) \<Rightarrow> finish rl_agent (Inl e) chosen hist fs1
                         | (Inr (found, response_output), fs1) \<Rightarrow>
                             learn_and_log sv q m docs hist rl_agent chosen fs1 images
                               (get_state_key embedding (map (\<lambda>pdf. take 5 (name pdf)) docs))
                               a found response_output)))"
proof -
  have table: "action_knobs ''chunk_small'' = (5000, 500, SimilaritySearch)
       \<and> action_knobs ''chunk_medium'' = (10000, 1000, SimilaritySearch)
       \<and> action_knobs ''chunk_large'' = (15000, 1500, SimilaritySearch)
       \<and> action_knobs ''similarity_standard'' = (15000, 1500, SimilaritySearch)
       \<and> action_knobs ''similarity_mmr'' = (15000, 1500, MaxMarginalRelevanceSearch 4 10)"
    by (simp add: action_knobs_def)
  note knobs = retrieve_and_answer_knobs [OF quiet]
  have same: "retrieve_and_answer sv raw_text ''similarity_standard'' q fs
           = retrieve_and_answer sv raw_text ''chunk_large'' q fs"
    unfolding knobs by (simp add: table)
  have pass: "user_input sv q m api_key (Some docs) hist rl_agent images fs
                 = (case action_knobs a of
                      (chunk_size, chunk_overlap, search) \<Rightarrow>
                        (case retrieve_with sv raw_text chunk_size chunk_overlap search q fs of
                           (Inl e, fs1) \<Rightarrow> finish rl_agent (Inl e) chosen hist fs1
                         | (Inr (found, response_output), fs1) \<Rightarrow>
                             learn_and_log sv q m docs hist rl_agent chosen fs1 images
                               (get_state_key embedding (map (\<lambda>pdf. take 5 (name pdf)) docs))
                               a found response_output))"
    if h: "api_key \<noteq> None \<and> is_pdf_related_question q (Some docs) \<and> truthy (Some docs)
            \<and> initial_agent sv rl_agent fs = Inr current
            \<and> get_pdf_text sv docs = Inr raw_text \<and> embed_query sv q = Inr embedding
            \<and> choose_action (random_draw sv) (random_pick sv) current
                 (get_state_key embedding (map (\<lambda>pdf. take 5 (name pdf)) docs))
                 (chunking_actions @ retrieval_actions) = (Inr a, chosen)"
  proof -
    obtain chunk_size chunk_overlap search where
      k: "action_knobs a = (chunk_size, chunk_overlap, search)"
      by (cases "action_knobs a")
    with knobs [of raw_text a q fs]
    have r: "retrieve_and_answer sv raw_text a q fs
               = retrieve_with sv raw_text chunk_size chunk_overlap search q fs"
      by simp
    from h show ?thesis
      by (auto simp: user_input_def document_path_def Let_def r k)
  qed
  from table knobs same pass show ?thesis by blast
qed

lemma demo_info_shown:
  "\<forall>message. st (demo_services draw pick answer_ok can_write can_draw) (SidebarInfo message)
      = Inr ()"
  by (simp add: demo_services_def)

text \<open>
  A pass that explores and draws \<open>similarity_mmr\<close>: retrieval and answer are those with
  the chunking 15000/1500 and the diversity-aware search.
\<close>

theorem action_fixes_chunking_and_search_witness:
  "(\<forall>message. st (demo_services 0 4 True True True) (SidebarInfo message) = Inr ())
   \<and> is_pdf_related_question ''revenue?'' (Some demo_docs)
   \<and> truthy (Some demo_docs)
   \<and> initial_agent (demo_services 0 4 True True True) (Some demo_agent) [] = Inr demo_agent
   \<and> get_pdf_text (demo_services 0 4 True True True) demo_docs
       = Inr ''Quarterly revenue increased by 10%''
   \<and> embed_query (demo_services 0 4 True True True) ''revenue?''
       = Inr [1 / 2, 1 / 4, 0, - 1, 2, 7]
   \<and> choose_action (random_draw (demo_services 0 4 True True True))
        (random_pick (demo_services 0 4 True True True)) demo_agent
        (get_state_key [1 / 2, 1 / 4, 0, - 1, 2, 7] (map (\<lambda>pdf. take 5 (name pdf)) demo_docs))
        (chunking_actions @ retrieval_actions)
       = (Inr ''similarity_mmr'', demo_agent)
   \<and> retrieve_and_answer (demo_services 0 4 True True True)
        ''Quarterly revenue increased by 10%'' ''similarity_mmr'' ''revenue?'' []
       = retrieve_with (demo_services 0 4 True True True)
           ''Quarterly revenue increased by 10%'' 15000 1500
           (MaxMarginalRelevanceSearch 4 10) ''revenue?'' []
   \<and> user_input (demo_services 0 4 True True True) ''revenue?'' ''Google AI'' (Some ''key'')
        (Some demo_docs) [] (Some demo_agent) [] []
       = (case retrieve_with (demo_services 0 4 True True True)
                 ''Quarterly revenue increased by 10%'' 15000 1500
                 (MaxMarginalRelevanceSearch 4 10) ''revenue?'' [] of
            (Inl e, fs1) \<Rightarrow> finish (Some demo_agent) (Inl e) demo_agent [] fs1
          | (Inr (found, response_output), fs1) \<Rightarrow>
              learn_and_log (demo_services 0 4 True True True) ''revenue?'' ''Google AI''
                demo_docs [] (Some demo_agent) demo_agent fs1 []
                (get_state_key [1 / 2, 1 / 4, 0, - 1, 2, 7]
                   (map (\<lambda>pdf. take 5 (name pdf)) demo_docs))
                ''similarity_mmr'' found response_output)"
proof -
  have quiet: "\<forall>message. st (demo_services 0 4 True True True) (SidebarInfo message) = Inr ()"
    by (rule demo_info_shown)
  have doc: "is_pdf_related_question ''revenue?'' (Some demo_docs)"
    by (rule demo_classified)
  have some: "truthy (Some demo_docs)"
    by (simp add: truthy_def demo_docs_def)
  have ag: "initial_agent (demo_services 0 4 True True True) (Some demo_agent) []
              = Inr demo_agent"
    by (simp add: initial_agent_def)
  have raw: "get_pdf_text (demo_services 0 4 True True True) demo_docs
               = Inr ''Quarterly revenue increased by 10%''"
    by (simp add: demo_services_def)
  have emb: "embed_query (demo_services 0 4 True True True) ''revenue?''
               = Inr [1 / 2, 1 / 4, 0, - 1, 2, 7]"
    by (simp add: demo_services_def)
  have act: "choose_action (random_draw (demo_services 0 4 True True True))
        (random_pick (demo_services 0 4 True True True)) demo_agent
        (get_state_key [1 / 2, 1 / 4, 0, - 1, 2, 7] (map (\<lambda>pdf. take 5 (name pdf)) demo_docs))
        (chunking_actions @ retrieval_actions)
       = (Inr ''similarity_mmr'', demo_agent)"
    by (simp add: choose_action_def demo_services_def demo_agent_def RLAgent_def
        random_choice_def chunking_actions_def retrieval_actions_def)
  note t = action_fixes_chunking_and_search [OF quiet,
      where raw_text = "''Quarterly revenue increased by 10%''" and a = "''similarity_mmr''"
        and q = "''revenue?''" and fs = "[]" and api_key = "Some ''key''" and docs = demo_docs
        and rl_agent = "Some demo_agent" and current = demo_agent
        and embedding = "[1 / 2, 1 / 4, 0, - 1, 2, 7]" and chosen = demo_agent
        and m = "''Google AI''" and hist = "[]" and images = "[]"]
  note mmr = t [THEN conjunct2, THEN conjunct2, THEN conjunct2, THEN conjunct2,
      THEN conjunct1]
  from t [THEN conjunct2, THEN conjunct2, THEN conjunct2, THEN conjunct2, THEN conjunct2,
      THEN conjunct1]
  have r: "retrieve_and_answer (demo_services 0 4 True True True)
        ''Quarterly revenue increased by 10%'' ''similarity_mmr'' ''revenue?'' []
       = retrieve_with (demo_services 0 4 True True True)
           ''Quarterly revenue increased by 10%'' 15000 1500
           (MaxMarginalRelevanceSearch 4 10) ''revenue?'' []"
    unfolding mmr by simp
  from t [THEN conjunct2, THEN conjunct2, THEN conjunct2, THEN conjunct2, THEN conjunct2,
      THEN conjunct2, THEN conjunct2] doc some ag raw emb act
  have p: "user_input (demo_services 0 4 True True True) ''revenue?'' ''Google AI''
        (Some ''key'') (Some demo_docs) [] (Some demo_agent) [] []
       = (case retrieve_with (demo_services 0 4 True True True)
                 ''Quarterly revenue increased by 10%'' 15000 1500
                 (MaxMarginalRelevanceSearch 4 10) ''revenue?'' [] of
            (Inl e, fs1) \<Rightarrow> finish (Some demo_agent) (Inl e) demo_agent [] fs1
          | (Inr (found, response_output), fs1) \<Rightarrow>
              learn_and_log (demo_services 0 4 True True True) ''revenue?'' ''Google AI''
                demo_docs [] (Some demo_agent) demo_agent fs1 []
                (get_state_key [1 / 2, 1 / 4, 0, - 1, 2, 7]
                   (map (\<lambda>pdf. take 5 (name pdf)) demo_docs))
                ''similarity_mmr'' found response_output)"
    unfolding mmr by simp
  from quiet doc some ag raw emb act r p show ?thesis by (intro conjI)
qed

text \<open>
  C6 as stated fails. Two passes in a row, both exploring: the first draws
  \<open>chunk_small\<close> and the answer shows the chunking 5000/500; the second starts from the
  state the first left, draws \<open>similarity_mmr\<close>, and the answer shows the chunking
  15000/1500, not the 5000/500 that was last applied.
\<close>

theorem action_fixes_chunking_and_search_counterexample:
  "user_input (demo_services 0 0 True True True) ''revenue?'' ''Google AI'' (Some ''key'')
      (Some demo_docs) [] (Some (RLAgent 0.1 0.9 1)) [] []
   = (Inr (Some (RLAgent 0.1 0.9 1\<lparr>q_table := [(''0.50-0.25-0.00--1.00-2.00-repor'',
               [(''chunk_small'', 3 / 12500), (''chunk_medium'', 0),
                (''chunk_large'', 0), (''similarity_standard'', 0),
                (''similarity_mmr'', 0)])]\<rparr>)),
      \<lparr>agent = Some (RLAgent 0.1 0.9 1\<lparr>q_table := [(''0.50-0.25-0.00--1.00-2.00-repor'',
               [(''chunk_small'', 3 / 12500), (''chunk_medium'', 0),
                (''chunk_large'', 0), (''similarity_standard'', 0),
                (''similarity_mmr'', 0)])]\<rparr>),
       history = [(''revenue?'', ''5000/500'', ''Google AI'', ''2025-01-01 00:00:00'',
                   ''report.pdf'', ''chunk_small'', ''0.00'')],
       files = [(''faiss_index'', ''index''), (''rl_model.json'',
                  json_dumps demo_repr
                    [(''0.50-0.25-0.00--1.00-2.00-repor'', [(''chunk_small'', 3 / 12500),
                     (''chunk_medium'', 0), (''chunk_large'', 0), (''similarity_standard'', 0),
                     (''similarity_mmr'', 0)])])]\<rparr>)
   \<and> user_input (demo_services 0 4 True True True) ''revenue?'' ''Google AI'' (Some ''key'')
      (Some demo_docs)
      [(''revenue?'', ''5000/500'', ''Google AI'', ''2025-01-01 00:00:00'',
        ''report.pdf'', ''chunk_small'', ''0.00'')]
      (Some (RLAgent 0.1 0.9 1\<lparr>q_table := [(''0.50-0.25-0.00--1.00-2.00-repor'',
               [(''chunk_small'', 3 / 12500), (''chunk_medium'', 0),
                (''chunk_large'', 0), (''similarity_standard'', 0),
                (''similarity_mmr'', 0)])]\<rparr>))
      []
      [(''faiss_index'', ''index''), (''rl_model.json'',
                  json_dumps demo_repr
                    [(''0.50-0.25-0.00--1.00-2.00-repor'', [(''chunk_small'', 3 / 12500),
                     (''chunk_medium'', 0), (''chunk_large'', 0), (''similarity_standard'', 0),
                     (''similarity_mmr'', 0)])])]
   = (Inr (Some (RLAgent 0.1 0.9 1\<lparr>q_table := [(''0.50-0.25-0.00--1.00-2.00-repor'',
               [(''chunk_small'', 3 / 12500), (''chunk_medium'', 0),
                (''chunk_large'', 0), (''similarity_standard'', 0),
                (''similarity_mmr'', 3 / 10000)])]\<rparr>)),
      \<lparr>agent = Some (RLAgent 0.1 0.9 1\<lparr>q_table := [(''0.50-0.25-0.00--1.00-2.00-repor'',
               [(''chunk_small'', 3 / 12500), (''chunk_medium'', 0),
                (''chunk_large'', 0), (''similarity_standard'', 0),
                (''similarity_mmr'', 3 / 10000)])]\<rparr>),
       history = [(''revenue?'', ''5000/500'', ''Google AI'', ''2025-01-01 00:00:00'',
                   ''report.pdf'', ''chunk_small'', ''0.00''),
                  (''revenue?'', ''15000/1500'', ''Google AI'', ''2025-01-01 00:00:00'',
                   ''report.pdf'', ''similarity_mmr'', ''0.00'')],
       files = [(''faiss_index'', ''index''), (''rl_model.json'',
                  json_dumps demo_repr
                    [(''0.50-0.25-0.00--1.00-2.00-repor'', [(''chunk_small'', 3 / 12500),
                     (''chunk_medium'', 0), (''chunk_large'', 0), (''similarity_standard'', 0),
                     (''similarity_mmr'', 3 / 10000)])])]\<rparr>)"
  using demo_pass_small demo_pass_mmr by (intro conjI)

end
